theory Spec2Isabelle
  imports Complex_Main
begin

section \<open>Text and values\<close>

text \<open>
  The readers in \<^verbatim>\<open>skll/data/readers.py\<close> work on Python text: sequences of Unicode
  code points. A code point is an integer, a text is a list of them; \<open>lit\<close>
  turns an ASCII literal into such a text. The model follows the Python 3 branches of
  the source (\<^verbatim>\<open>PY3\<close> true, \<^verbatim>\<open>PY2\<close> false).
\<close>

type_synonym codepoint = int
type_synonym ustr = "codepoint list"

definition lit :: "string \<Rightarrow> ustr" where
  "lit s = map of_char s"

text \<open>
  Python values that reach the readers: \<^verbatim>\<open>None\<close>, integers, floats, text, and
  dictionaries keyed by text (a feature mapping, or one record of an in-memory list).
  A dictionary is an association list in insertion order. A float carries the exact
  value of the decimal literal it was read from; rounding to an IEEE double and
  overflow to infinity are not modelled.
\<close>

datatype pyfloat = FVal rat | FInf bool | FNaN

datatype pyval =
    PNone
  | PInt int
  | PFloat pyfloat
  | PStr ustr
  | PDict "(ustr \<times> pyval) list"

subsection \<open>Whitespace, \<^verbatim>\<open>strip\<close>, \<open>split\<close>, \<open>lower\<close>, \<open>replace\<close>\<close>

text \<open>
  \<^verbatim>\<open>str.isspace\<close>, and with it \<^verbatim>\<open>strip()\<close>, \<^verbatim>\<open>split()\<close> and the
  pattern \<^verbatim>\<open>\s\<close> under \<^verbatim>\<open>re.UNICODE\<close>, hold of these code points.
\<close>

definition isspace :: "codepoint \<Rightarrow> bool" where
  "isspace c \<longleftrightarrow>
     (9 \<le> c \<and> c \<le> 13) \<or> (28 \<le> c \<and> c \<le> 32) \<or> c = 133 \<or> c = 160 \<or> c = 5760
     \<or> (8192 \<le> c \<and> c \<le> 8202) \<or> c = 8232 \<or> c = 8233 \<or> c = 8239 \<or> c = 8287
     \<or> c = 12288"

definition strip :: "ustr \<Rightarrow> ustr" where
  "strip s = rev (dropWhile isspace (rev (dropWhile isspace s)))"

text \<open>\<^verbatim>\<open>s.split()\<close>: the maximal runs of non-whitespace, in order.\<close>

fun split_ws_acc :: "ustr \<Rightarrow> ustr \<Rightarrow> ustr list" where
  "split_ws_acc cur [] = (if cur = [] then [] else [rev cur])"
| "split_ws_acc cur (c # cs) =
     (if isspace c then (if cur = [] then split_ws_acc [] cs else rev cur # split_ws_acc [] cs)
      else split_ws_acc (c # cur) cs)"

definition split_ws :: "ustr \<Rightarrow> ustr list" where
  "split_ws s = split_ws_acc [] s"

text \<open>\<^verbatim>\<open>s.split(sep)\<close> for a one-character separator: empty pieces are kept.\<close>

fun split_on_acc :: "codepoint \<Rightarrow> ustr \<Rightarrow> ustr \<Rightarrow> ustr list" where
  "split_on_acc sep cur [] = [rev cur]"
| "split_on_acc sep cur (c # cs) =
     (if c = sep then rev cur # split_on_acc sep [] cs else split_on_acc sep (c # cur) cs)"

definition split_on :: "codepoint \<Rightarrow> ustr \<Rightarrow> ustr list" where
  "split_on sep s = split_on_acc sep [] s"

text \<open>
  \<^verbatim>\<open>s.lower()\<close> on the ASCII letters. Under the full Unicode case mapping no text
  with a character outside ASCII is lowered to one of the seven file extensions, so
  membership of the lowered extension in \<^verbatim>\<open>EXT_TO_READER\<close> is the same under both.
\<close>

definition lower_cp :: "codepoint \<Rightarrow> codepoint" where
  "lower_cp c = (if 65 \<le> c \<and> c \<le> 90 then c + 32 else c)"

definition lower :: "ustr \<Rightarrow> ustr" where
  "lower s = map lower_cp s"

text \<open>\<^verbatim>\<open>s.replace(orig, replacement)\<close> for a one-character \<^verbatim>\<open>orig\<close>.\<close>

definition replace_cp :: "codepoint \<Rightarrow> ustr \<Rightarrow> ustr \<Rightarrow> ustr" where
  "replace_cp orig replacement s = concat (map (\<lambda>c. if c = orig then replacement else [c]) s)"

text \<open>\<^verbatim>\<open>needle in haystack\<close> on text: a contiguous occurrence.\<close>

fun is_prefix :: "ustr \<Rightarrow> ustr \<Rightarrow> bool" where
  "is_prefix [] s = True"
| "is_prefix (p # ps) [] = False"
| "is_prefix (p # ps) (c # cs) = (p = c \<and> is_prefix ps cs)"

fun occurs_in :: "ustr \<Rightarrow> ustr \<Rightarrow> bool" where
  "occurs_in needle [] = (needle = [])"
| "occurs_in needle (c # cs) = (is_prefix needle (c # cs) \<or> occurs_in needle cs)"

subsection \<open>Decimal text of an integer\<close>

function nat_str :: "nat \<Rightarrow> ustr" where
  "nat_str n = (if n < 10 then [48 + int n] else nat_str (n div 10) @ [48 + int (n mod 10)])"
  by pat_completeness auto
termination
  by (relation "measure id") auto

declare nat_str.simps [simp del]

definition int_str :: "int \<Rightarrow> ustr" where
  "int_str i = (if i < 0 then 45 # nat_str (nat (- i)) else nat_str (nat i))"

subsection \<open>The builtins \<^verbatim>\<open>int\<close> and \<^verbatim>\<open>float\<close> on text\<close>

text \<open>
  Both builtins skip white space at the two ends, take an optional sign and then digits,
  a single underscore being allowed between two digits. They turn every white-space
  character outside ASCII into a blank and then skip ASCII white space, so the
  separators U+001C to U+001F, of which \<^verbatim>\<open>str.isspace\<close> holds, are not skipped.
  The model reads the ASCII digits \<^verbatim>\<open>0\<close> to \<^verbatim>\<open>9\<close>; the decimal digits of other
  scripts, which the interpreter also accepts, are outside it. A text the builtin
  rejects is \<^verbatim>\<open>ValueError\<close>.
\<close>

definition isspace_num :: "codepoint \<Rightarrow> bool" where
  "isspace_num c \<longleftrightarrow> isspace c \<and> \<not> (28 \<le> c \<and> c \<le> 31)"

definition strip_num :: "ustr \<Rightarrow> ustr" where
  "strip_num s = rev (dropWhile isspace_num (rev (dropWhile isspace_num s)))"

datatype exn = ValueError | TypeError

definition isdigit :: "codepoint \<Rightarrow> bool" where
  "isdigit c \<longleftrightarrow> 48 \<le> c \<and> c \<le> 57"

text \<open>\<open>digitpart\<close>: \<^verbatim>\<open>digit (["_"] digit)*\<close>, giving the digits' values.\<close>

fun digitpart :: "ustr \<Rightarrow> int list option" where
  "digitpart [] = None"
| "digitpart [c] = (if isdigit c then Some [c - 48] else None)"
| "digitpart (c # d # cs) =
     (if \<not> isdigit c then None
      else if d = 95 then map_option (\<lambda>r. (c - 48) # r) (digitpart cs)
      else map_option (\<lambda>r. (c - 48) # r) (digitpart (d # cs)))"

definition digits_val :: "int list \<Rightarrow> int" where
  "digits_val ds = foldl (\<lambda>acc d. 10 * acc + d) 0 ds"

text \<open>An optional sign: the sign as \<open>1\<close> or \<open>- 1\<close>, and the rest.\<close>

fun take_sign :: "ustr \<Rightarrow> int \<times> ustr" where
  "take_sign [] = (1, [])"
| "take_sign (c # cs) = (if c = 43 then (1, cs) else if c = 45 then (- 1, cs) else (1, c # cs))"

definition int_of_text :: "ustr \<Rightarrow> exn + int" where
  "int_of_text t =
     (let (sg, body) = take_sign (strip_num t)
      in case digitpart body of
           None \<Rightarrow> Inl ValueError
         | Some ds \<Rightarrow> Inr (sg * digits_val ds))"

text \<open>
  \<^verbatim>\<open>float\<close>: \<^verbatim>\<open>[sign] (inf | infinity | nan | number [exponent])\<close>, the words in any
  letter case, \<^verbatim>\<open>number\<close> being \<^verbatim>\<open>[digitpart] "." digitpart | digitpart ["."]\<close>
  and \<^verbatim>\<open>exponent\<close> being \<^verbatim>\<open>("e" | "E") [sign] digitpart\<close>.
\<close>

definition number_digits :: "ustr \<Rightarrow> (int list \<times> int list) option" where
  "number_digits s =
     (let ip = takeWhile (\<lambda>c. c \<noteq> 46) s; rest = dropWhile (\<lambda>c. c \<noteq> 46) s
      in if rest = [] then map_option (\<lambda>ds. (ds, [])) (digitpart ip)
         else let fp = tl rest
              in if ip = [] then map_option (\<lambda>fs. ([], fs)) (digitpart fp)
                 else if fp = [] then map_option (\<lambda>ds. (ds, [])) (digitpart ip)
                 else (case (digitpart ip, digitpart fp) of
                         (Some ds, Some fs) \<Rightarrow> Some (ds, fs)
                       | _ \<Rightarrow> None))"

definition exponent_val :: "ustr \<Rightarrow> int option" where
  "exponent_val s =
     (if s = [] then Some 0
      else let (sg, body) = take_sign (tl s)
           in map_option (\<lambda>ds. sg * digits_val ds) (digitpart body))"

definition scale10 :: "rat \<Rightarrow> int \<Rightarrow> rat" where
  "scale10 m e = (if 0 \<le> e then m * 10 ^ nat e else m / 10 ^ nat (- e))"

definition float_of_text :: "ustr \<Rightarrow> exn + pyfloat" where
  "float_of_text t =
     (let (sg, body) = take_sign (strip_num t); word = lower body
      in if word = lit ''inf'' \<or> word = lit ''infinity'' then Inr (FInf (sg = 1))
         else if word = lit ''nan'' then Inr FNaN
         else let isE = (\<lambda>c. c = 101 \<or> c = 69);
                  mant = takeWhile (\<lambda>c. \<not> isE c) body;
                  ex = dropWhile (\<lambda>c. \<not> isE c) body
              in case (number_digits mant, exponent_val ex) of
                   (Some (ds, fs), Some e) \<Rightarrow>
                     Inr (FVal (scale10 (of_int (sg * digits_val (ds @ fs)))
                                        (e - int (length fs))))
                 | _ \<Rightarrow> Inl ValueError)"

section \<open>Numeric coercion: \<^verbatim>\<open>safe_float\<close>\<close>

text \<open>
  \<^verbatim>\<open>text_type\<close> is the builtin \<^verbatim>\<open>str\<close>. Its result on \<^verbatim>\<open>None\<close>, an integer
  and a text is written out; on a float or a dictionary it is the interpreter's
  \<^verbatim>\<open>repr\<close>, taken as the parameter \<open>repr\<close>. On these values it does not raise; an
  object whose \<^verbatim>\<open>__str__\<close> raises is an argument of \<open>safe_float_obj\<close> below.
\<close>

definition text_type :: "(pyval \<Rightarrow> ustr) \<Rightarrow> pyval \<Rightarrow> ustr" where
  "text_type repr v =
     (case v of
        PStr s \<Rightarrow> s
      | PNone \<Rightarrow> lit ''None''
      | PInt i \<Rightarrow> int_str i
      | _ \<Rightarrow> repr v)"

text \<open>The warning logged for a text that is not a key of the replacement dictionary.\<close>

definition not_in_map_msg :: "ustr \<Rightarrow> ustr" where
  "not_in_map_msg t =
     lit ''Encountered value that was not in replacement dictionary (e.g., class_map): '' @ t"

text \<open>
  \<open>safe_float repr text replace_dict\<close> returns the converted value and the warnings it
  logged. The replacement dictionary maps text to text (\<open>None\<close>: not supplied). The two
  \<^verbatim>\<open>except TypeError\<close> handlers of the source are kept as branches.
\<close>

definition safe_float :: "(pyval \<Rightarrow> ustr) \<Rightarrow> pyval \<Rightarrow> (ustr \<times> ustr) list option \<Rightarrow> pyval \<times> ustr list" where
  "safe_float repr text0 replace_dict =
     (let text1 = text_type repr text0;
          (text2, warnings) =
             (case replace_dict of
                None \<Rightarrow> (text1, [])
              | Some d \<Rightarrow>
                  (case map_of d text1 of
                     Some r \<Rightarrow> (r, [])
                   | None \<Rightarrow> (text1, [not_in_map_msg text1])))
      in (case int_of_text text2 of
            Inr i \<Rightarrow> PInt i
          | Inl ValueError \<Rightarrow>
              (case float_of_text text2 of
                 Inr f \<Rightarrow> PFloat f
               | Inl ValueError \<Rightarrow> PStr text2
               | Inl TypeError \<Rightarrow> PFloat (FVal 0))
          | Inl TypeError \<Rightarrow> PInt 0,
          warnings))"

subsection \<open>The call on any object\<close>

text \<open>
  \<open>safe_float\<close> above is the function on the values the readers pass it, with the
  text-to-text dictionary of the configuration. The source accepts any object and any
  dictionary. An argument is a value, or another object, given by what its
  \<^verbatim>\<open>__str__\<close> does: the text it returns or the exception it raises. The exceptions
  are those of the builtins and any other (\<open>ExcOther\<close>, with a name).
\<close>

datatype exc = ExcValueError | ExcTypeError | ExcOverflowError | ExcOther ustr

datatype arg = Val pyval | Obj "exc + ustr"

definition str_arg :: "(pyval \<Rightarrow> ustr) \<Rightarrow> arg \<Rightarrow> exc + ustr" where
  "str_arg repr a = (case a of Val v \<Rightarrow> Inr (text_type repr v) | Obj s \<Rightarrow> s)"

definition exc_of :: "exn \<Rightarrow> exc" where
  "exc_of e = (case e of ValueError \<Rightarrow> ExcValueError | TypeError \<Rightarrow> ExcTypeError)"

text \<open>
  The builtins \<^verbatim>\<open>int\<close> and \<^verbatim>\<open>float\<close> on a value: a text is parsed, a number is
  converted (\<^verbatim>\<open>int\<close> of a float cuts the fraction off, raises \<^verbatim>\<open>OverflowError\<close> on
  an infinity and \<^verbatim>\<open>ValueError\<close> on a NaN), \<^verbatim>\<open>None\<close> and a dictionary are a
  \<^verbatim>\<open>TypeError\<close>.
\<close>

fun int_of :: "pyval \<Rightarrow> exc + int" where
  "int_of (PStr s) = map_sum exc_of id (int_of_text s)"
| "int_of (PInt i) = Inr i"
| "int_of (PFloat (FVal x)) = Inr (if 0 \<le> x then \<lfloor>x\<rfloor> else \<lceil>x\<rceil>)"
| "int_of (PFloat (FInf b)) = Inl ExcOverflowError"
| "int_of (PFloat FNaN) = Inl ExcValueError"
| "int_of PNone = Inl ExcTypeError"
| "int_of (PDict d) = Inl ExcTypeError"

fun float_of :: "pyval \<Rightarrow> exc + pyfloat" where
  "float_of (PStr s) = map_sum exc_of id (float_of_text s)"
| "float_of (PInt i) = Inr (FVal (of_int i))"
| "float_of (PFloat f) = Inr f"
| "float_of PNone = Inl ExcTypeError"
| "float_of (PDict d) = Inl ExcTypeError"

text \<open>
  \<^verbatim>\<open>safe_float(text, replace_dict)\<close> as the interpreter runs it. The conversion to
  text is outside the \<^verbatim>\<open>try\<close>: what it raises, the call raises. The replacement is
  whatever the dictionary holds. The handlers catch \<^verbatim>\<open>ValueError\<close> and
  \<^verbatim>\<open>TypeError\<close>; any other exception of \<^verbatim>\<open>int\<close> or \<^verbatim>\<open>float\<close> leaves the call.
\<close>

definition safe_float_obj :: "(pyval \<Rightarrow> ustr) \<Rightarrow> arg \<Rightarrow> (ustr \<times> pyval) list option
    \<Rightarrow> exc + (pyval \<times> ustr list)" where
  "safe_float_obj repr text0 replace_dict =
     (case str_arg repr text0 of
        Inl e \<Rightarrow> Inl e
      | Inr text1 \<Rightarrow>
          (let (text2, warnings) =
                 (case replace_dict of
                    None \<Rightarrow> (PStr text1, [])
                  | Some d \<Rightarrow>
                      (case map_of d text1 of
                         Some r \<Rightarrow> (r, [])
                       | None \<Rightarrow> (PStr text1, [not_in_map_msg text1])))
           in case int_of text2 of
                Inr i \<Rightarrow> Inr (PInt i, warnings)
              | Inl ExcValueError \<Rightarrow>
                  (case float_of text2 of
                     Inr f \<Rightarrow> Inr (PFloat f, warnings)
                   | Inl ExcValueError \<Rightarrow> Inr (text2, warnings)
                   | Inl ExcTypeError \<Rightarrow> Inr (PFloat (FVal 0), warnings)
                   | Inl e \<Rightarrow> Inl e)
              | Inl ExcTypeError \<Rightarrow> Inr (PInt 0, warnings)
              | Inl e \<Rightarrow> Inl e))"

text \<open>A dictionary from text to text, among the dictionaries of any values.\<close>

definition text_dict :: "(ustr \<times> ustr) list option \<Rightarrow> (ustr \<times> pyval) list option" where
  "text_dict rd = map_option (map (\<lambda>(k, t). (k, PStr t))) rd"


section \<open>Errors and dictionaries\<close>

text \<open>
  What the readers are given: a path, or an in-memory list of records (each record a
  dictionary with optional keys \<^verbatim>\<open>id\<close>, \<^verbatim>\<open>y\<close>, \<^verbatim>\<open>x\<close>).
\<close>

datatype source = Path ustr | Records "(ustr \<times> pyval) list list"

text \<open>
  Every exception of the module is a value. The first six are the \<^verbatim>\<open>ValueError\<close>s
  the source raises itself, one constructor for each \<^verbatim>\<open>raise\<close>, carrying what its
  message is formatted with; \<open>error_message\<close> below gives the message. The others are
  raised by the interpreter or a library under the source's feet: \<open>UnpackError\<close> is the
  \<^verbatim>\<open>ValueError\<close> of a tuple assignment or of \<^verbatim>\<open>dict()\<close> on a sequence whose
  length is not two, \<open>NotInList\<close> the \<^verbatim>\<open>ValueError\<close> of \<^verbatim>\<open>list.index\<close>,
  \<open>BadKeyword\<close> the \<^verbatim>\<open>TypeError\<close> of an unexpected keyword argument, \<open>Unhashable\<close>
  the \<^verbatim>\<open>TypeError\<close> of a dictionary put in a set, \<open>EmptyDataError\<close> the exception
  of that name of the table library (a \<^verbatim>\<open>ValueError\<close>, message
  \<^verbatim>\<open>No columns to parse from file\<close>), \<open>LibraryError\<close> any other exception raised
  inside \<^verbatim>\<open>open\<close> or the table library.
\<close>

datatype error =
    UnsupportedFormat ustr
  | EmptyInput source
  | InvalidId ustr source
  | DuplicateId source
  | DuplicateFeature source ustr
  | MalformedLine ustr
  | UnpackError ustr
  | NotInList ustr
  | BadKeyword ustr
  | KeyError ustr
  | UnboundLocalError ustr
  | AssertionError
  | Unhashable
  | EmptyDataError
  | LibraryError ustr

text \<open>
  The messages of the six \<^verbatim>\<open>raise ValueError\<close> statements. A path is formatted as
  itself; the text form of a record list is left to \<open>fmt\<close>.
\<close>

fun error_message :: "(source \<Rightarrow> ustr) \<Rightarrow> error \<Rightarrow> ustr" where
  "error_message fmt (UnsupportedFormat p) =
     lit ''Example files must be in either .arff, .csv, .jsonlines, .megam, .ndj, or .tsv format. You specified: '' @ p"
| "error_message fmt (EmptyInput src) =
     lit ''No features found in possibly empty file '' @ [39] @ fmt src @ [39] @ lit ''.''"
| "error_message fmt (InvalidId i src) =
     lit ''You set ids_to_floats to true, but ID '' @ i
       @ lit '' could not be converted to float in '' @ fmt src"
| "error_message fmt (DuplicateId src) =
     lit ''The example IDs are not unique in '' @ fmt src @ lit ''.''"
| "error_message fmt (DuplicateFeature src i) =
     lit ''There are duplicate feature names in '' @ fmt src @ lit '' for example '' @ i @ lit ''.''"
| "error_message fmt (MalformedLine l) =
     lit ''Line does not look like valid libsvm format'' @ [10] @ l"
| "error_message fmt e = []"

text \<open>\<^verbatim>\<open>d[k] = v\<close>: an existing key keeps its place, a new key goes last.\<close>

fun dict_set :: "ustr \<Rightarrow> 'v \<Rightarrow> (ustr \<times> 'v) list \<Rightarrow> (ustr \<times> 'v) list" where
  "dict_set k v [] = [(k, v)]"
| "dict_set k v ((k', v') # d) = (if k' = k then (k, v) # d else (k', v') # dict_set k v d)"

text \<open>\<^verbatim>\<open>d.update(pairs)\<close> and \<^verbatim>\<open>dict(pairs)\<close>.\<close>

definition dict_update :: "(ustr \<times> 'v) list \<Rightarrow> (ustr \<times> 'v) list \<Rightarrow> (ustr \<times> 'v) list" where
  "dict_update d pairs = foldl (\<lambda>acc (k, v). dict_set k v acc) d pairs"

definition dict_of :: "(ustr \<times> 'v) list \<Rightarrow> (ustr \<times> 'v) list" where
  "dict_of pairs = dict_update [] pairs"

text \<open>\<^verbatim>\<open>islice(xs, 0, None, 2)\<close> and \<^verbatim>\<open>islice(xs, 1, None, 2)\<close>.\<close>

fun islice0 :: "'a list \<Rightarrow> 'a list" where
  "islice0 [] = []"
| "islice0 [x] = [x]"
| "islice0 (x # y # xs) = x # islice0 xs"

fun islice1 :: "'a list \<Rightarrow> 'a list" where
  "islice1 [] = []"
| "islice1 [x] = []"
| "islice1 (x # y # xs) = y # islice1 xs"

text \<open>\<^verbatim>\<open>'EXAMPLE_{}'.format(n)\<close>.\<close>

definition example_id :: "nat \<Rightarrow> ustr" where
  "example_id n = lit ''EXAMPLE_'' @ nat_str n"


section \<open>Readers and their configuration\<close>

text \<open>
  The vectorizer chosen in \<^verbatim>\<open>Reader.__init__\<close>: a \<^verbatim>\<open>DictVectorizer(sparse)\<close> or a
  \<^verbatim>\<open>FeatureHasher(n_features)\<close>. A feature matrix is the list of its rows.
\<close>

datatype vectorizer = DictVectorizer bool | FeatureHasher "nat option"

type_synonym matrix = "rat list list"

datatype reader_kind =
  DictListReader | NDJReader | MegaMReader | LibSVMReader | CSVReader | TSVReader | ARFFReader

text \<open>
  A data frame of the table library: the column names and the rows, each row holding
  one cell for each column.
\<close>

record frame =
  columns :: "ustr list"
  rows :: "pyval list list"

text \<open>
  A frame read with \<^verbatim>\<open>header=None\<close>: its columns are labelled 0, 1, ... up to its
  width.
\<close>

record raw =
  width :: nat
  cells :: "pyval list list"

text \<open>
  What the module calls and does not define: the interpreter's \<^verbatim>\<open>repr\<close>, the file
  system (\<open>open_lines\<close>: the lines of the file at a path), the table library
  (\<^verbatim>\<open>pd.DataFrame\<close> with keyword arguments, \<^verbatim>\<open>pd.read_csv\<close> on a path and on a
  text buffer, \<^verbatim>\<open>pd.read_json\<close>, \<^verbatim>\<open>Series.astype(float)\<close>,
  \<^verbatim>\<open>to_dict(orient='records')\<close> on a frame without columns, which differs between
  versions of the library) and the vectorizer's \<^verbatim>\<open>fit_transform\<close>. A file is read
  twice by the row-by-row readers and gives the same lines both times. Column names
  are text.
\<close>

record extern =
  repr :: "pyval \<Rightarrow> ustr"
  open_lines :: "ustr \<Rightarrow> error + ustr list"
  read_csv :: "ustr \<Rightarrow> pyval \<Rightarrow> pyval \<Rightarrow> (ustr \<times> pyval) list \<Rightarrow> error + frame"
  data_frame :: "(ustr \<times> pyval) list list \<Rightarrow> (ustr \<times> pyval) list \<Rightarrow> error + frame"
  read_csv_buffer :: "ustr \<Rightarrow> pyval \<Rightarrow> (ustr \<times> pyval) list \<Rightarrow> error + raw"
  records_without_columns :: "nat \<Rightarrow> pyval list"
  read_json :: "ustr \<Rightarrow> (ustr \<times> pyval) list \<Rightarrow> error + frame"
  astype_float :: "pyval list \<Rightarrow> error + pyval list"
  fit_transform :: "vectorizer \<Rightarrow> pyval list \<Rightarrow> matrix"

text \<open>
  The fields \<^verbatim>\<open>Reader.__init__\<close> and the sub-class constructors set. The logger and
  the progress message only say where diagnostics go and are left out.
\<close>

record reader =
  kind :: reader_kind
  path_or_list :: source
  quiet :: bool
  ids_to_floats :: bool
  label_col :: "ustr option"
  id_col :: "ustr option"
  class_map :: "(ustr \<times> ustr) list option"
  vectorizer :: vectorizer
  pandas_kwargs :: "(ustr \<times> pyval) list"
  sep :: pyval
  engine :: pyval

text \<open>
  The keyword arguments of a call: \<open>None\<close> where the keyword is not passed, so that the
  constructor's default applies.
\<close>

record kwargs =
  kw_quiet :: "bool option"
  kw_ids_to_floats :: "bool option"
  kw_label_col :: "ustr option option"
  kw_id_col :: "ustr option option"
  kw_class_map :: "(ustr \<times> ustr) list option option"
  kw_sparse :: "bool option"
  kw_feature_hasher :: "bool option"
  kw_num_features :: "nat option option"
  kw_pandas_kwargs :: "(ustr \<times> pyval) list option option"

definition no_kwargs :: kwargs where
  "no_kwargs = \<lparr>kw_quiet = None, kw_ids_to_floats = None, kw_label_col = None, kw_id_col = None,
     kw_class_map = None, kw_sparse = None, kw_feature_hasher = None, kw_num_features = None,
     kw_pandas_kwargs = None\<rparr>"

definition default :: "'a \<Rightarrow> 'a option \<Rightarrow> 'a" where
  "default d v = (case v of None \<Rightarrow> d | Some x \<Rightarrow> x)"

text \<open>\<^verbatim>\<open>Reader.__init__\<close>, for the sub-class \<open>k\<close>.\<close>

definition Reader_init :: "reader_kind \<Rightarrow> source \<Rightarrow> kwargs \<Rightarrow> reader" where
  "Reader_init k src kw =
     \<lparr>kind = k,
      path_or_list = src,
      quiet = default True (kw_quiet kw),
      ids_to_floats = default False (kw_ids_to_floats kw),
      label_col = default (Some (lit ''y'')) (kw_label_col kw),
      id_col = default (Some (lit ''id'')) (kw_id_col kw),
      class_map = default None (kw_class_map kw),
      vectorizer =
        (if default False (kw_feature_hasher kw)
         then FeatureHasher (default None (kw_num_features kw))
         else DictVectorizer (default True (kw_sparse kw))),
      pandas_kwargs = [],
      sep = PNone,
      engine = PNone\<rparr>"

text \<open>\<^verbatim>\<open>d.pop(k, dflt)\<close>: the value and the dictionary without the key.\<close>

definition dict_pop :: "ustr \<Rightarrow> 'v \<Rightarrow> (ustr \<times> 'v) list \<Rightarrow> 'v \<times> (ustr \<times> 'v) list" where
  "dict_pop k dflt d = (default dflt (map_of d k), filter (\<lambda>(k', v). k' \<noteq> k) d)"

text \<open>
  The constructors of the sub-classes. \<open>MegaMReader\<close> and \<open>LibSVMReader\<close> inherit
  \<^verbatim>\<open>Reader.__init__\<close>, which has no \<^verbatim>\<open>pandas_kwargs\<close> parameter. The flag
  \<^verbatim>\<open>_use_pandas\<close> is set by the constructor alone, false for these two and true for
  the others: it is a function of the reader's kind and needs no field.
\<close>

definition construct :: "reader_kind \<Rightarrow> source \<Rightarrow> kwargs \<Rightarrow> error + reader" where
  "construct k src kw =
     (let base = Reader_init k src kw;
          pk = default [] (default None (kw_pandas_kwargs kw))
      in case k of
           DictListReader \<Rightarrow> Inr (base\<lparr>pandas_kwargs := pk\<rparr>)
         | NDJReader \<Rightarrow>
             Inr (base\<lparr>pandas_kwargs := snd (dict_pop (lit ''orient'') PNone
                                               (snd (dict_pop (lit ''lines'') PNone pk)))\<rparr>)
         | CSVReader \<Rightarrow>
             (let (s, pk1) = dict_pop (lit ''sep'') (PStr (lit '','')) pk;
                  (e, pk2) = dict_pop (lit ''engine'') (PStr (lit ''c'')) pk1
              in Inr (base\<lparr>pandas_kwargs := pk2, sep := s, engine := e\<rparr>))
         | TSVReader \<Rightarrow>
             (let (s, pk1) = dict_pop (lit ''sep'') (PStr (lit '','')) pk;
                  (e, pk2) = dict_pop (lit ''engine'') (PStr (lit ''c'')) pk1
              in Inr (base\<lparr>pandas_kwargs := pk2, sep := PStr [9], engine := e\<rparr>))
         | ARFFReader \<Rightarrow>
             (let (e, pk1) = dict_pop (lit ''engine'') (PStr (lit ''c'')) pk;
                  pk2 = snd (dict_pop (lit ''delimiter'') PNone pk1);
                  pk3 = snd (dict_pop (lit ''header'') PNone pk2);
                  pk4 = snd (dict_pop (lit ''quote_char'') PNone pk3);
                  pk5 = snd (dict_pop (lit ''escape_char'') PNone pk4)
              in Inr (base\<lparr>pandas_kwargs := pk5, engine := e\<rparr>))
         | _ \<Rightarrow>
             (if kw_pandas_kwargs kw \<noteq> None then Inl (BadKeyword (lit ''pandas_kwargs''))
              else Inr base))"

subsection \<open>Format dispatch: \<^verbatim>\<open>Reader.for_path\<close>\<close>

definition EXT_TO_READER :: "(ustr \<times> reader_kind) list" where
  "EXT_TO_READER =
     [(lit ''.arff'', ARFFReader),
      (lit ''.csv'', CSVReader),
      (lit ''.jsonlines'', NDJReader),
      (lit ''.libsvm'', LibSVMReader),
      (lit ''.megam'', MegaMReader),
      (lit ''.ndj'', NDJReader),
      (lit ''.tsv'', TSVReader)]"

text \<open>\<^verbatim>\<open>path.rsplit('.', 1)[-1]\<close>: what follows the last dot, the whole path if none.\<close>

definition rsplit_last :: "codepoint \<Rightarrow> ustr \<Rightarrow> ustr" where
  "rsplit_last c p = rev (takeWhile (\<lambda>x. x \<noteq> c) (rev p))"

definition for_path :: "source \<Rightarrow> kwargs \<Rightarrow> error + reader" where
  "for_path src kw =
     (case src of
        Records l \<Rightarrow> construct DictListReader (Records l) no_kwargs
      | Path p \<Rightarrow>
          (let ext = 46 # lower (rsplit_last 46 p)
           in case map_of EXT_TO_READER ext of
                None \<Rightarrow> Inl (UnsupportedFormat p)
              | Some k \<Rightarrow> construct k (Path p) kw))"

section \<open>The row-by-row parsers\<close>

text \<open>
  \<^verbatim>\<open>_sub_read\<close> of a row-by-row reader is a generator. Its run is the list of the
  triples \<open>(id, label, features)\<close> it yields, and the exception that ended it, if one did.
\<close>

type_synonym example = "ustr \<times> pyval \<times> pyval"
type_synonym run = "example list \<times> error option"

subsection \<open>\<^verbatim>\<open>MegaMReader._sub_read\<close>\<close>

text \<open>The body of the loop for one instance line, already split into tokens.\<close>

definition MegaM_instance :: "extern \<Rightarrow> reader \<Rightarrow> ustr \<Rightarrow> ustr list \<Rightarrow> error + example" where
  "MegaM_instance ext r curr_id split_line =
     (let num_cols = length split_line;
          (class_name, field_pairs) =
            (if num_cols = 1
             then (fst (safe_float (repr ext) (PStr (hd split_line)) (class_map r)), [])
             else if num_cols mod 2 = 1
             then (fst (safe_float (repr ext) (PStr (hd split_line)) (class_map r)),
                   tl split_line)
             else (PNone, split_line));
          curr_info_dict =
            (if length field_pairs > 0
             then dict_update []
                    (zip (islice0 field_pairs)
                         (map (\<lambda>val. fst (safe_float (repr ext) (PStr val) None))
                              (islice1 field_pairs)))
             else [])
      in if length field_pairs > 0 \<and> 2 * length curr_info_dict \<noteq> length field_pairs
         then Inl (DuplicateFeature (path_or_list r) curr_id)
         else Inr (curr_id, class_name, PDict curr_info_dict))"

text \<open>The loop over the lines, from the state \<open>(example_num, curr_id)\<close>.\<close>

fun MegaM_lines :: "extern \<Rightarrow> reader \<Rightarrow> nat \<Rightarrow> ustr \<Rightarrow> ustr list \<Rightarrow> run" where
  "MegaM_lines ext r example_num curr_id [] = ([], None)"
| "MegaM_lines ext r example_num curr_id (l # f) =
     (let line = strip l
      in if line \<noteq> [] \<and> hd line = 35
         then MegaM_lines ext r example_num (strip (tl line)) f
         else if line \<noteq> [] \<and> line \<notin> set [lit ''TRAIN'', lit ''TEST'', lit ''DEV'']
         then (case MegaM_instance ext r curr_id (split_ws line) of
                 Inl e \<Rightarrow> ([], Some e)
               | Inr ex \<Rightarrow>
                   (let (exs, e) = MegaM_lines ext r (example_num + 1)
                                      (example_id (example_num + 1)) f
                    in (ex # exs, e)))
         else MegaM_lines ext r example_num curr_id f)"

definition MegaM_sub_read :: "extern \<Rightarrow> reader \<Rightarrow> ustr list \<Rightarrow> run" where
  "MegaM_sub_read ext r f = MegaM_lines ext r 0 (lit ''EXAMPLE_0'') f"


subsection \<open>Regular expressions, as far as \<^verbatim>\<open>LibSVMReader.line_regex\<close> needs them\<close>

text \<open>
  A pattern is a sequence of items: a literal character, a greedy repetition of a
  character class with a least count (\<^verbatim>\<open>+\<close> is least one, \<^verbatim>\<open>*\<close> least none), a
  named group, an optional item \<^verbatim>\<open>(...)?\<close>, and \<^verbatim>\<open>$\<close>. \<open>EndGrp\<close> is the
  matcher's own mark for the end of an open group and the input the group began at.
\<close>

datatype rx =
    Lit codepoint
  | Rep "codepoint \<Rightarrow> bool" nat
  | Grp ustr "rx list"
  | Opt "rx list"
  | Eos
  | EndGrp ustr ustr

text \<open>
  The backtracking matcher of \<^verbatim>\<open>re\<close>: a repetition takes as many characters as it
  can and gives them back one at a time while the rest of the pattern fails; an optional
  item is tried before it is skipped. The result is the text of each group that took
  part in the first match found, \<open>None\<close> when there is no match.
\<close>

function rx_run :: "rx list \<Rightarrow> ustr \<Rightarrow> (ustr \<times> ustr) list \<Rightarrow> (ustr \<times> ustr) list option"
  and rx_back :: "rx list \<Rightarrow> ustr \<Rightarrow> (ustr \<times> ustr) list \<Rightarrow> nat \<Rightarrow> nat \<Rightarrow> (ustr \<times> ustr) list option"
where
  "rx_run [] s caps = Some caps"
| "rx_run (Lit c # rs) s caps =
     (case s of [] \<Rightarrow> None | x # xs \<Rightarrow> if x = c then rx_run rs xs caps else None)"
| "rx_run (Rep p n # rs) s caps = rx_back rs s caps (length (takeWhile p s)) n"
| "rx_run (Grp name body # rs) s caps = rx_run (body @ EndGrp name s # rs) s caps"
| "rx_run (EndGrp name s0 # rs) s caps =
     rx_run rs s (dict_set name (take (length s0 - length s) s0) caps)"
| "rx_run (Opt body # rs) s caps =
     (case rx_run (body @ rs) s caps of Some m \<Rightarrow> Some m | None \<Rightarrow> rx_run rs s caps)"
| "rx_run (Eos # rs) s caps = (if s = [] \<or> s = [10] then rx_run rs s caps else None)"
| "rx_back rs s caps k n =
     (if k < n then None
      else case rx_run rs (drop k s) caps of
             Some m \<Rightarrow> Some m
           | None \<Rightarrow> if k = 0 then None else rx_back rs s caps (k - 1) n)"
  by pat_completeness auto
termination
  by (relation "inv_image (less_than <*lex*> less_than)
        (\<lambda>x. case x of Inl (rs, s, caps) \<Rightarrow> (size_list size rs, 0)
                      | Inr (rs, s, caps, k, n) \<Rightarrow> (size_list size rs, Suc k))") auto

declare rx_back.simps [simp del]

text \<open>
  \<^verbatim>\<open>line_regex\<close>, searched on the stripped line. The pattern begins with \<^verbatim>\<open>^\<close>, so
  the search is a match from the first character.
  \<^verbatim>\<open>
  ^(?P<label_num>[^ ]+)\s+(?P<features>[^#]*)\s*
  (?P<comments>#\s*(?P<example_id>[^|]+)\s*\|\s*(?P<label_map>[^|]+)\s*\|\s*(?P<feat_map>.*)\s*)?$
  \<close>
\<close>

definition line_regex :: "rx list" where
  "line_regex =
     [Grp (lit ''label_num'') [Rep (\<lambda>c. c \<noteq> 32) 1],
      Rep isspace 1,
      Grp (lit ''features'') [Rep (\<lambda>c. c \<noteq> 35) 0],
      Rep isspace 0,
      Opt [Grp (lit ''comments'')
             [Lit 35, Rep isspace 0,
              Grp (lit ''example_id'') [Rep (\<lambda>c. c \<noteq> 124) 1],
              Rep isspace 0, Lit 124, Rep isspace 0,
              Grp (lit ''label_map'') [Rep (\<lambda>c. c \<noteq> 124) 1],
              Rep isspace 0, Lit 124, Rep isspace 0,
              Grp (lit ''feat_map'') [Rep (\<lambda>c. c \<noteq> 10) 0],
              Rep isspace 0]],
      Eos]"

text \<open>\<^verbatim>\<open>match.group(name)\<close>: \<open>None\<close> for a group that took no part in the match.\<close>

definition group :: "(ustr \<times> ustr) list \<Rightarrow> ustr \<Rightarrow> ustr option" where
  "group m name = map_of m name"

subsection \<open>\<^verbatim>\<open>LibSVMReader\<close>\<close>

text \<open>
  \<^verbatim>\<open>LIBSVM_REPLACE_DICT\<close>: RATIO, FULLWIDTH NUMBER SIGN, EN SPACE, MODIFIER LETTER
  SHORT EQUALS SIGN and DIVIDES, each with the ASCII character it stands for.
\<close>

definition LIBSVM_REPLACE_DICT :: "(codepoint \<times> ustr) list" where
  "LIBSVM_REPLACE_DICT = [(8758, [58]), (65283, [35]), (8194, [32]), (42890, [61]), (8739, [124])]"

text \<open>
  A local variable of a generator is unbound until its first assignment; reading it
  before is an \<^verbatim>\<open>UnboundLocalError\<close>. The maps are \<^verbatim>\<open>None\<close> or a dictionary.
\<close>

datatype 'a local = Unbound | Bound 'a

type_synonym name_map = "(ustr \<times> ustr) list option"

text \<open>\<^verbatim>\<open>_pair_to_tuple(pair, feat_map)\<close>.\<close>

definition pair_to_tuple :: "extern \<Rightarrow> ustr \<Rightarrow> name_map \<Rightarrow> error + (ustr \<times> pyval)" where
  "pair_to_tuple ext pair feat_map =
     (case split_on 58 pair of
        [name, val] \<Rightarrow>
          (case feat_map of
             None \<Rightarrow> Inr (name, fst (safe_float (repr ext) (PStr val) None))
           | Some fm \<Rightarrow>
               (case map_of fm name of
                  None \<Rightarrow> Inl (KeyError name)
                | Some name' \<Rightarrow> Inr (name', fst (safe_float (repr ext) (PStr val) None))))
      | _ \<Rightarrow> Inl (UnpackError pair))"

text \<open>
  The loop that fills \<^verbatim>\<open>feat_map\<close> from the pairs of the third comment segment:
  \<^verbatim>\<open>number, name = pair.split('=')\<close>, the replacements on \<^verbatim>\<open>name\<close>, then
  \<^verbatim>\<open>feat_map[number] = name\<close>.
\<close>

fun fill_feat_map :: "(ustr \<times> ustr) list \<Rightarrow> ustr list \<Rightarrow> error + (ustr \<times> ustr) list" where
  "fill_feat_map fm [] = Inr fm"
| "fill_feat_map fm (pair # pairs) =
     (case split_on 61 pair of
        [number, name] \<Rightarrow>
          fill_feat_map
            (dict_set number
               (foldl (\<lambda>nm (orig, replacement). replace_cp orig replacement nm)
                  name LIBSVM_REPLACE_DICT) fm)
            pairs
      | _ \<Rightarrow> Inl (UnpackError pair))"

text \<open>\<^verbatim>\<open>dict(pair.split('=') for pair in pairs)\<close>.\<close>

fun fill_label_map :: "(ustr \<times> ustr) list \<Rightarrow> ustr list \<Rightarrow> error + (ustr \<times> ustr) list" where
  "fill_label_map lm [] = Inr lm"
| "fill_label_map lm (pair # pairs) =
     (case split_on 61 pair of
        [number, name] \<Rightarrow> fill_label_map (dict_set number name lm) pairs
      | _ \<Rightarrow> Inl (UnpackError pair))"

text \<open>\<^verbatim>\<open>dict(self._pair_to_tuple(pair, feat_map) for pair in pairs)\<close>.\<close>

fun fill_info_dict :: "extern \<Rightarrow> name_map \<Rightarrow> (ustr \<times> pyval) list \<Rightarrow> ustr list
    \<Rightarrow> error + (ustr \<times> pyval) list" where
  "fill_info_dict ext feat_map d [] = Inr d"
| "fill_info_dict ext feat_map d (pair # pairs) =
     (case pair_to_tuple ext pair feat_map of
        Inl e \<Rightarrow> Inl e
      | Inr (name, val) \<Rightarrow> fill_info_dict ext feat_map (dict_set name val d) pairs)"

text \<open>
  The part of the loop body under \<^verbatim>\<open>if match.group('comments') is not None\<close>: the
  new values of \<^verbatim>\<open>feat_map\<close>, \<^verbatim>\<open>label_map\<close> and \<^verbatim>\<open>curr_id\<close>.
\<close>

definition read_comment :: "(ustr \<times> ustr) list \<Rightarrow> error + (name_map \<times> name_map \<times> ustr)" where
  "read_comment m =
     (case (if default [] (group m (lit ''feat_map'')) \<noteq> []
            then map_sum id Some
                   (fill_feat_map [] (split_ws (default [] (group m (lit ''feat_map'')))))
            else Inr None) of
        Inl e \<Rightarrow> Inl e
      | Inr feat_map \<Rightarrow>
          (case (if default [] (group m (lit ''label_map'')) \<noteq> []
                 then map_sum id Some
                        (fill_label_map []
                           (split_ws (strip (default [] (group m (lit ''label_map''))))))
                 else Inr None) of
             Inl e \<Rightarrow> Inl e
           | Inr label_map \<Rightarrow>
               Inr (feat_map, label_map, strip (default [] (group m (lit ''example_id''))))))"

text \<open>
  The loop body for one line: the example it yields and the locals \<^verbatim>\<open>label_map\<close>
  and \<^verbatim>\<open>feat_map\<close> as it leaves them. The source assigns both only under a comment,
  so a line without one reads the values an earlier line left, or finds them unbound.
  A dictionary is true when it is not empty. \<^verbatim>\<open>feat_map\<close> is read inside a generator
  expression, once for each feature pair; unbound there, it raises \<^verbatim>\<open>NameError\<close>, the
  parent class of \<^verbatim>\<open>UnboundLocalError\<close>, written with the same constructor. (Both
  locals are assigned together, so this cannot happen once \<^verbatim>\<open>label_map\<close> is bound.)
\<close>

definition LibSVM_line :: "extern \<Rightarrow> reader \<Rightarrow> nat \<Rightarrow> name_map local \<times> name_map local \<Rightarrow> ustr
    \<Rightarrow> error + (example \<times> (name_map local \<times> name_map local))" where
  "LibSVM_line ext r example_num st line =
     (case rx_run line_regex (strip line) [] of
        None \<Rightarrow> Inl (MalformedLine line)
      | Some m \<Rightarrow>
          (case (if group m (lit ''comments'') \<noteq> None
                 then map_sum id (\<lambda>(fm, lm, i). (Bound lm, Bound fm, i)) (read_comment m)
                 else Inr (fst st, snd st, [])) of
             Inl e \<Rightarrow> Inl e
           | Inr (label_map, feat_map, id0) \<Rightarrow>
               (let curr_id = (if id0 = [] then example_id example_num else id0);
                    class_num = default [] (group m (lit ''label_num''))
                in case label_map of
                     Unbound \<Rightarrow> Inl (UnboundLocalError (lit ''label_map''))
                   | Bound lm \<Rightarrow>
                       (case (if lm \<noteq> None \<and> lm \<noteq> Some []
                              then (case map_of (default [] lm) class_num of
                                      None \<Rightarrow> Inl (KeyError class_num)
                                    | Some nm \<Rightarrow> Inr nm)
                              else Inr class_num) of
                          Inl e \<Rightarrow> Inl e
                        | Inr class_name0 \<Rightarrow>
                            (let class_name =
                                   fst (safe_float (repr ext) (PStr class_name0) (class_map r));
                                 pairs = split_ws (strip (default [] (group m (lit ''features''))))
                             in case feat_map of
                                  Unbound \<Rightarrow>
                                    (if pairs = []
                                     then Inr ((curr_id, class_name, PDict []), (label_map, feat_map))
                                     else Inl (UnboundLocalError (lit ''feat_map'')))
                                | Bound fm \<Rightarrow>
                                    (case fill_info_dict ext fm [] pairs of
                                       Inl e \<Rightarrow> Inl e
                                     | Inr d \<Rightarrow>
                                         Inr ((curr_id, class_name, PDict d),
                                              (label_map, feat_map))))))))"

fun LibSVM_lines :: "extern \<Rightarrow> reader \<Rightarrow> nat \<Rightarrow> name_map local \<times> name_map local \<Rightarrow> ustr list
    \<Rightarrow> run" where
  "LibSVM_lines ext r example_num st [] = ([], None)"
| "LibSVM_lines ext r example_num st (l # f) =
     (case LibSVM_line ext r example_num st l of
        Inl e \<Rightarrow> ([], Some e)
      | Inr (ex, st') \<Rightarrow>
          (let (exs, e) = LibSVM_lines ext r (example_num + 1) st' f in (ex # exs, e)))"

definition LibSVM_sub_read :: "extern \<Rightarrow> reader \<Rightarrow> ustr list \<Rightarrow> run" where
  "LibSVM_sub_read ext r f = LibSVM_lines ext r 0 (Unbound, Unbound) f"


subsection \<open>Element types of arrays and columns\<close>

text \<open>
  An array or a column has one element type. Numbers of which one is a float all
  become floats: a list of function results turned into a \<^verbatim>\<open>Series\<close>, and an array of
  numbers.
\<close>

definition is_number :: "pyval \<Rightarrow> bool" where
  "is_number v = (case v of PInt i \<Rightarrow> True | PFloat f \<Rightarrow> True | _ \<Rightarrow> False)"

definition is_float :: "pyval \<Rightarrow> bool" where
  "is_float v = (case v of PFloat f \<Rightarrow> True | _ \<Rightarrow> False)"

definition is_str :: "pyval \<Rightarrow> bool" where
  "is_str v = (case v of PStr s \<Rightarrow> True | _ \<Rightarrow> False)"

definition is_dict :: "pyval \<Rightarrow> bool" where
  "is_dict v = (case v of PDict d \<Rightarrow> True | _ \<Rightarrow> False)"

definition to_float :: "pyval \<Rightarrow> pyval" where
  "to_float v = (case v of PInt i \<Rightarrow> PFloat (FVal (of_int i)) | PNone \<Rightarrow> PFloat FNaN | _ \<Rightarrow> v)"

definition unify_numeric :: "pyval list \<Rightarrow> pyval list" where
  "unify_numeric xs =
     (if list_all is_number xs \<and> list_ex is_float xs then map to_float xs else xs)"

text \<open>
  \<^verbatim>\<open>np.array(xs)\<close> on a list of labels or identifiers: with a \<^verbatim>\<open>None\<close> or a
  dictionary among them the elements stay as they are; otherwise, with a text among
  them, every element becomes its text; otherwise they are numbers.
\<close>

definition np_array :: "extern \<Rightarrow> pyval list \<Rightarrow> pyval list" where
  "np_array ext xs =
     (if list_ex (\<lambda>v. v = PNone) xs \<or> list_ex is_dict xs then xs
      else if list_ex is_str xs then map (\<lambda>v. PStr (text_type (repr ext) v)) xs
      else unify_numeric xs)"

text \<open>
  A column of \<^verbatim>\<open>pd.DataFrame(list_of_dicts)\<close>: where every cell is a number,
  \<^verbatim>\<open>None\<close> or missing, one at least is a number, and one at least is a float,
  \<^verbatim>\<open>None\<close> or missing, all cells become floats, the absent ones NaN.
\<close>

definition unify_column :: "pyval list \<Rightarrow> pyval list" where
  "unify_column xs =
     (if list_all (\<lambda>v. is_number v \<or> v = PNone) xs \<and> list_ex is_number xs
         \<and> (list_ex is_float xs \<or> list_ex (\<lambda>v. v = PNone) xs)
      then map to_float xs else xs)"

subsection \<open>\<^verbatim>\<open>Reader._sub_read_rows\<close>\<close>

text \<open>
  The first loop: identifiers and labels of the examples the generator yields, the
  identifier converted with \<^verbatim>\<open>float\<close> when \<^verbatim>\<open>ids_to_floats\<close> is set.
\<close>

fun collect_ids_labels :: "reader \<Rightarrow> example list \<Rightarrow> error + (pyval list \<times> pyval list)" where
  "collect_ids_labels r [] = Inr ([], [])"
| "collect_ids_labels r ((ident, cls, feats) # exs) =
     (case (if ids_to_floats r
            then (case float_of_text ident of
                    Inr f \<Rightarrow> Inr (PFloat f)
                  | Inl e \<Rightarrow> Inl (InvalidId ident (path_or_list r)))
            else Inr (PStr ident)) of
        Inl e \<Rightarrow> Inl e
      | Inr i \<Rightarrow>
          (case collect_ids_labels r exs of
             Inl e \<Rightarrow> Inl e
           | Inr (ids, labels) \<Rightarrow> Inr (i # ids, cls # labels)))"

text \<open>
  The features of a read: the feature mappings in order and, for the lazy second pass
  of a row-by-row reader, the exception that ends it while the vectorizer drains it.
\<close>

type_synonym features = "pyval list \<times> error option"

text \<open>
  \<open>sub_read\<close> is the reader's generator \<^verbatim>\<open>self._sub_read\<close>. An exception of the
  generator reaches the loop after the examples yielded before it.
\<close>

definition sub_read_rows :: "extern \<Rightarrow> reader \<Rightarrow> (ustr list \<Rightarrow> run)
    \<Rightarrow> error + (pyval list \<times> pyval list \<times> features)" where
  "sub_read_rows ext r sub_read =
     (case path_or_list r of
        Records l \<Rightarrow> Inl (LibraryError (lit ''open''))
      | Path path \<Rightarrow>
          (case open_lines ext path of
             Inl e \<Rightarrow> Inl e
           | Inr f \<Rightarrow>
               (let (exs, stop) = sub_read f
                in case collect_ids_labels r exs of
                     Inl e \<Rightarrow> Inl e
                   | Inr (ids, labels) \<Rightarrow>
                       (case stop of
                          Some e \<Rightarrow> Inl e
                        | None \<Rightarrow>
                            (let total = length exs
                             in if total = 0 then Inl (EmptyInput (path_or_list r))
                                else (case open_lines ext path of
                                        Inl e \<Rightarrow>
                                          Inr (np_array ext ids, np_array ext labels,
                                               ([], Some e))
                                      | Inr f2 \<Rightarrow>
                                          (let (exs2, stop2) = sub_read f2
                                           in Inr (np_array ext ids, np_array ext labels,
                                                   (map (\<lambda>(i, c, feat_dict). feat_dict) exs2,
                                                    stop2)))))))))"

section \<open>The table readers\<close>

subsection \<open>Data frames\<close>

text \<open>\<^verbatim>\<open>df.empty\<close>: one of the two axes has length zero.\<close>

definition df_empty :: "frame \<Rightarrow> bool" where
  "df_empty df \<longleftrightarrow> columns df = [] \<or> rows df = []"

definition col_index :: "ustr \<Rightarrow> frame \<Rightarrow> nat" where
  "col_index c df = length (takeWhile (\<lambda>x. x \<noteq> c) (columns df))"

text \<open>\<^verbatim>\<open>df[c]\<close> and \<^verbatim>\<open>del df[c]\<close>, for a column \<open>c\<close> of the frame.\<close>

definition df_column :: "ustr \<Rightarrow> frame \<Rightarrow> pyval list" where
  "df_column c df = map (\<lambda>row. row ! col_index c df) (rows df)"

definition del_at :: "nat \<Rightarrow> 'a list \<Rightarrow> 'a list" where
  "del_at i xs = take i xs @ drop (Suc i) xs"

definition df_del :: "ustr \<Rightarrow> frame \<Rightarrow> frame" where
  "df_del c df =
     \<lparr>columns = del_at (col_index c df) (columns df),
      rows = map (del_at (col_index c df)) (rows df)\<rparr>"

text \<open>\<^verbatim>\<open>df.to_dict(orient='records')\<close>.\<close>

definition to_dict_records :: "extern \<Rightarrow> frame \<Rightarrow> pyval list" where
  "to_dict_records ext df =
     (if columns df = [] then records_without_columns ext (length (rows df))
      else map (\<lambda>row. PDict (dict_of (zip (columns df) row))) (rows df))"

text \<open>
  \<^verbatim>\<open>pd.DataFrame(list_of_dicts)\<close> without keyword arguments: the columns are the keys
  in the order they first appear, a record without a key has NaN in that column, and
  each column gets its element type.
\<close>

definition DataFrame :: "(ustr \<times> pyval) list list \<Rightarrow> frame" where
  "DataFrame l =
     (let cols = rev (remdups (rev (concat (map (map fst) l))));
          vals = map (\<lambda>c. unify_column (map (\<lambda>rec. default (PFloat FNaN) (map_of rec c)) l))
                   cols
      in \<lparr>columns = cols,
          rows = map (\<lambda>i. map (\<lambda>col. col ! i) vals) [0 ..< length l]\<rparr>)"

subsection \<open>\<^verbatim>\<open>Reader._parse_dataframe\<close>\<close>

definition parse_dataframe :: "extern \<Rightarrow> reader \<Rightarrow> frame \<Rightarrow> ustr option \<Rightarrow> ustr option
    \<Rightarrow> pyval list option \<Rightarrow> error + (pyval list \<times> pyval list \<times> features)" where
  "parse_dataframe ext r df id_col' label_col' features =
     (if df_empty df then Inl (EmptyInput (path_or_list r))
      else
        (case (if id_col' \<noteq> None \<and> the id_col' \<in> set (columns df)
               then (if ids_to_floats r
                     then map_sum id (\<lambda>ids. (ids, df_del (the id_col') df))
                            (astype_float ext (df_column (the id_col') df))
                     else Inr (df_column (the id_col') df, df_del (the id_col') df))
               else Inr (map (\<lambda>i. PStr (example_id i)) [0 ..< length (rows df)], df)) of
           Inl e \<Rightarrow> Inl e
         | Inr (ids, df1) \<Rightarrow>
             (let (labels, df2) =
                    (if label_col' \<noteq> None \<and> the label_col' \<in> set (columns df1)
                     then (unify_numeric
                             (if class_map r \<noteq> None
                              then map (\<lambda>v. fst (safe_float (repr ext) v (class_map r)))
                                     (df_column (the label_col') df1)
                              else map (\<lambda>v. fst (safe_float (repr ext) v None))
                                     (df_column (the label_col') df1)),
                           df_del (the label_col') df1)
                     else (replicate (length (rows df1)) PNone, df1))
              in Inr (ids, labels,
                      (case features of None \<Rightarrow> to_dict_records ext df2 | Some fs \<Rightarrow> fs, None)))))"

subsection \<open>\<^verbatim>\<open>_sub_read\<close> of the table readers\<close>

text \<open>
  \<open>DictListReader\<close> and \<open>NDJReader\<close>: the features are the column \<^verbatim>\<open>x\<close>, a
  \<^verbatim>\<open>KeyError\<close> if there is none. \<open>NDJReader\<close> turns the identifiers into text first.
\<close>

definition records_sub_read :: "extern \<Rightarrow> reader \<Rightarrow> frame
    \<Rightarrow> error + (pyval list \<times> pyval list \<times> features)" where
  "records_sub_read ext r df =
     (if df_empty df then parse_dataframe ext r df None None None
      else if lit ''x'' \<notin> set (columns df) then Inl (KeyError (lit ''x''))
      else parse_dataframe ext r df
             (if lit ''id'' \<in> set (columns df) then Some (lit ''id'') else None)
             (if lit ''y'' \<in> set (columns df) then Some (lit ''y'') else None)
             (Some (df_column (lit ''x'') df)))"

definition DictList_sub_read :: "extern \<Rightarrow> reader
    \<Rightarrow> error + (pyval list \<times> pyval list \<times> features)" where
  "DictList_sub_read ext r =
     (case path_or_list r of
        Path p \<Rightarrow> Inl (LibraryError (lit ''DataFrame''))
      | Records list_of_dicts \<Rightarrow>
          (case (if pandas_kwargs r = [] then Inr (DataFrame list_of_dicts)
                 else data_frame ext list_of_dicts (pandas_kwargs r)) of
             Inl e \<Rightarrow> Inl e
           | Inr df \<Rightarrow> records_sub_read ext r df))"

text \<open>\<^verbatim>\<open>df['id'] = df['id'].astype(str)\<close>.\<close>

definition ids_as_str :: "extern \<Rightarrow> frame \<Rightarrow> frame" where
  "ids_as_str ext df =
     df\<lparr>rows := map (\<lambda>row. row[col_index (lit ''id'') df :=
                                PStr (text_type (repr ext) (row ! col_index (lit ''id'') df))])
                    (rows df)\<rparr>"

definition NDJ_sub_read :: "extern \<Rightarrow> reader
    \<Rightarrow> error + (pyval list \<times> pyval list \<times> features)" where
  "NDJ_sub_read ext r =
     (case path_or_list r of
        Records l \<Rightarrow> Inl (LibraryError (lit ''read_json''))
      | Path path \<Rightarrow>
          (case read_json ext path (pandas_kwargs r) of
             Inl e \<Rightarrow> Inl e
           | Inr df \<Rightarrow>
               records_sub_read ext r
                 (if \<not> df_empty df \<and> lit ''id'' \<in> set (columns df) then ids_as_str ext df
                  else df)))"

text \<open>
  \<^verbatim>\<open>pd.read_csv\<close> raises \<^verbatim>\<open>EmptyDataError\<close> when its input holds nothing and no
  option names the columns. The model has this for the reader's own options (no
  \<^verbatim>\<open>pandas_kwargs\<close> left after the constructor): on a file without lines, and on an
  empty text buffer. Every other call is left to the parameters.
\<close>

definition CSV_frame :: "extern \<Rightarrow> reader \<Rightarrow> ustr \<Rightarrow> error + frame" where
  "CSV_frame ext r path =
     (if open_lines ext path = Inr [] \<and> pandas_kwargs r = [] then Inl EmptyDataError
      else read_csv ext path (sep r) (engine r) (pandas_kwargs r))"

definition CSV_sub_read :: "extern \<Rightarrow> reader
    \<Rightarrow> error + (pyval list \<times> pyval list \<times> features)" where
  "CSV_sub_read ext r =
     (case path_or_list r of
        Records l \<Rightarrow> Inl (LibraryError (lit ''read_csv''))
      | Path path \<Rightarrow>
          (case CSV_frame ext r path of
             Inl e \<Rightarrow> Inl e
           | Inr df \<Rightarrow> parse_dataframe ext r df (id_col r) (label_col r) None))"

text \<open>\<^verbatim>\<open>ARFFReader.split_with_quotes(s, delimiter)\<close>, with its defaults for the rest.\<close>

definition split_with_quotes :: "extern \<Rightarrow> reader \<Rightarrow> ustr \<Rightarrow> ustr \<Rightarrow> error + raw" where
  "split_with_quotes ext r s delimiter =
     (let kwargs = dict_update
                     [(lit ''header'', PNone), (lit ''delimiter'', PStr delimiter),
                      (lit ''quotechar'', PStr [39]), (lit ''escapechar'', PStr [92])]
                     (pandas_kwargs r)
      in if s = [] \<and> pandas_kwargs r = [] then Inl EmptyDataError
         else read_csv_buffer ext s (engine r) kwargs)"

text \<open>\<^verbatim>\<open>df.loc[i, j]\<close> on a frame read without header: a \<^verbatim>\<open>KeyError\<close> off the frame.\<close>

definition loc :: "raw \<Rightarrow> nat \<Rightarrow> nat \<Rightarrow> error + pyval" where
  "loc df i j =
     (if i < length (cells df) \<and> j < width df \<and> j < length (cells df ! i)
      then Inr (cells df ! i ! j) else Inl (KeyError (nat_str j)))"

text \<open>
  The name a cell gives a column. Column names are text in the model; a cell that is
  not text (an attribute named by a number, which the table library reads as a number)
  gives a name apart from every text: its text form after the number \<open>- 1\<close>, which is
  no code point.
\<close>

definition label_of :: "extern \<Rightarrow> pyval \<Rightarrow> ustr" where
  "label_of ext c = (case c of PStr s \<Rightarrow> s | _ \<Rightarrow> (- 1) # text_type (repr ext) c)"

text \<open>
  The loop of \<^verbatim>\<open>ARFFReader._sub_read\<close> over the lines before \<^verbatim>\<open>@data\<close>, from the
  state \<open>(columns, regression, relation)\<close>. The last two are attributes of the reader
  object, which \<^verbatim>\<open>read\<close> does not use.
\<close>

fun ARFF_attributes :: "extern \<Rightarrow> reader \<Rightarrow> ustr list \<times> bool \<times> pyval \<Rightarrow> ustr list
    \<Rightarrow> error + (ustr list \<times> bool \<times> pyval)" where
  "ARFF_attributes ext r st [] = Inr st"
| "ARFF_attributes ext r (cols, regression, relation) (row # rest) =
     (case split_with_quotes ext r row [32] of
        Inl e \<Rightarrow> Inl e
      | Inr row_series \<Rightarrow>
          (case loc row_series 0 0 of
             Inl e \<Rightarrow> Inl e
           | Inr c0 \<Rightarrow>
               if c0 = PStr (lit ''@attribute'')
               then (case loc row_series 0 1 of
                       Inl e \<Rightarrow> Inl e
                     | Inr column \<Rightarrow>
                         if Some column = map_option PStr (label_col r)
                         then (case loc row_series 0 2 of
                                 Inl e \<Rightarrow> Inl e
                               | Inr ty \<Rightarrow>
                                   ARFF_attributes ext r
                                     (cols @ [label_of ext column],
                                      ty = PStr (lit ''numeric''), relation) rest)
                         else ARFF_attributes ext r
                                (cols @ [label_of ext column], regression, relation) rest)
               else if c0 = PStr (lit ''@relation'')
               then (case loc row_series 0 1 of
                       Inl e \<Rightarrow> Inl e
                     | Inr rel \<Rightarrow> ARFF_attributes ext r (cols, regression, rel) rest)
               else ARFF_attributes ext r (cols, regression, relation) rest))"

text \<open>\<^verbatim>\<open>'\n'.join(lines)\<close>.\<close>

fun join_lines :: "ustr list \<Rightarrow> ustr" where
  "join_lines [] = []"
| "join_lines [l] = l"
| "join_lines (l # m # ls) = l @ 10 # join_lines (m # ls)"

text \<open>
  \<^verbatim>\<open>ARFFReader._sub_read\<close> up to the call of \<^verbatim>\<open>_parse_dataframe\<close>: the stripped
  non-blank lines, the place of \<^verbatim>\<open>@data\<close> (\<^verbatim>\<open>list.index\<close> raises without one), the
  frame of the data block, the column names of the declarations, and
  \<^verbatim>\<open>df.columns = columns\<close>, which raises unless there is one name for each column.
\<close>

definition ARFF_frame :: "extern \<Rightarrow> reader \<Rightarrow> ustr \<Rightarrow> error + frame" where
  "ARFF_frame ext r path =
     (case open_lines ext path of
        Inl e \<Rightarrow> Inl e
      | Inr buff \<Rightarrow>
          (let lines = filter (\<lambda>l. l \<noteq> []) (map strip buff)
           in if lit ''@data'' \<notin> set lines then Inl (NotInList (lit ''@data''))
              else (let data_idx = length (takeWhile (\<lambda>l. l \<noteq> lit ''@data'') lines)
                    in case split_with_quotes ext r (join_lines (drop (data_idx + 1) lines))
                              (lit '','') of
                         Inl e \<Rightarrow> Inl e
                       | Inr df \<Rightarrow>
                           (case ARFF_attributes ext r ([], False, PStr [])
                                   (take data_idx lines) of
                              Inl e \<Rightarrow> Inl e
                            | Inr (cols, regression, relation) \<Rightarrow>
                                if length cols \<noteq> width df
                                then Inl (LibraryError (lit ''Length mismatch''))
                                else Inr \<lparr>columns = cols, rows = cells df\<rparr>))))"

definition ARFF_sub_read :: "extern \<Rightarrow> reader
    \<Rightarrow> error + (pyval list \<times> pyval list \<times> features)" where
  "ARFF_sub_read ext r =
     (case path_or_list r of
        Records l \<Rightarrow> Inl (LibraryError (lit ''open''))
      | Path path \<Rightarrow>
          (case ARFF_frame ext r path of
             Inl e \<Rightarrow> Inl e
           | Inr df \<Rightarrow> parse_dataframe ext r df (id_col r) (label_col r) None))"

section \<open>Assembling the data set: \<^verbatim>\<open>Reader.read\<close>\<close>

text \<open>
  \<^verbatim>\<open>len(set(ids))\<close>. Equal values are one element of the set: an integer and a float
  of the same value are equal, a NaN is equal to nothing, a dictionary cannot be put in
  a set. The identity of objects is not modelled: every NaN counts as an element of its
  own, where the interpreter counts the occurrences of one and the same NaN object
  once. The set of the model is never smaller than that of the interpreter for it.
\<close>

datatype hkey = KNone | KNum rat | KInf bool | KStr ustr

datatype hashed = Key hkey | NaNKey | NoKey

fun hash_key :: "pyval \<Rightarrow> hashed" where
  "hash_key PNone = Key KNone"
| "hash_key (PInt i) = Key (KNum (of_int i))"
| "hash_key (PFloat (FVal x)) = Key (KNum x)"
| "hash_key (PFloat (FInf b)) = Key (KInf b)"
| "hash_key (PFloat FNaN) = NaNKey"
| "hash_key (PStr s) = Key (KStr s)"
| "hash_key (PDict d) = NoKey"

definition len_set :: "pyval list \<Rightarrow> error + nat" where
  "len_set ids =
     (if NoKey \<in> set (map hash_key ids) then Inl Unhashable
      else Inr (length (remdups (filter (\<lambda>k. k \<noteq> NaNKey) (map hash_key ids)))
                + length (filter (\<lambda>k. k = NaNKey) (map hash_key ids))))"

text \<open>The \<^verbatim>\<open>FeatureSet\<close> that \<^verbatim>\<open>read\<close> returns.\<close>

record feature_set =
  fs_name :: source
  fs_ids :: "pyval list"
  fs_labels :: "pyval list"
  fs_features :: matrix
  fs_vectorizer :: vectorizer

text \<open>\<^verbatim>\<open>self._sub_read\<close> of the class, through the strategy \<^verbatim>\<open>_use_pandas\<close> selects.\<close>

definition parse :: "extern \<Rightarrow> reader \<Rightarrow> error + (pyval list \<times> pyval list \<times> features)" where
  "parse ext r =
     (case kind r of
        MegaMReader \<Rightarrow> sub_read_rows ext r (MegaM_sub_read ext r)
      | LibSVMReader \<Rightarrow> sub_read_rows ext r (LibSVM_sub_read ext r)
      | DictListReader \<Rightarrow> DictList_sub_read ext r
      | NDJReader \<Rightarrow> NDJ_sub_read ext r
      | CSVReader \<Rightarrow> CSV_sub_read ext r
      | TSVReader \<Rightarrow> CSV_sub_read ext r
      | ARFFReader \<Rightarrow> ARFF_sub_read ext r)"

text \<open>
  \<^verbatim>\<open>read\<close>: parse, vectorize, assert that the three row counts agree, check that the
  identifiers are unique, return the feature set. Progress printing is left out.
\<close>

definition read :: "extern \<Rightarrow> reader \<Rightarrow> error + feature_set" where
  "read ext r =
     (case parse ext r of
        Inl e \<Rightarrow> Inl e
      | Inr (ids, labels, (feature_dicts, stop)) \<Rightarrow>
          (case stop of
             Some e \<Rightarrow> Inl e
           | None \<Rightarrow>
               (let features = fit_transform ext (vectorizer r) feature_dicts
                in if \<not> (length ids = length labels \<and> length labels = length features)
                   then Inl AssertionError
                   else (case len_set ids of
                           Inl e \<Rightarrow> Inl e
                         | Inr n \<Rightarrow>
                             if length ids \<noteq> n then Inl (DuplicateId (path_or_list r))
                             else Inr \<lparr>fs_name = path_or_list r, fs_ids = ids,
                                       fs_labels = labels, fs_features = features,
                                       fs_vectorizer = vectorizer r\<rparr>))))"


section \<open>The examples of a source\<close>




section \<open>A sample environment\<close>

text \<open>
  For the closed examples: a \<^verbatim>\<open>repr\<close> that no example reaches with a float or a
  dictionary, a file system given by the lines of each file, a table library that
  returns the frame listed for a path and reads no text buffer, and a vectorizer that
  makes one (empty) row for each feature mapping.
\<close>

definition plain_repr :: "pyval \<Rightarrow> ustr" where
  "plain_repr v = lit ''<object>''"

definition lookup_path :: "(ustr \<times> 'a) list \<Rightarrow> ustr \<Rightarrow> error + 'a" where
  "lookup_path fs p = (case map_of fs p of None \<Rightarrow> Inl (LibraryError p) | Some x \<Rightarrow> Inr x)"

definition sample_extern :: "(ustr \<times> ustr list) list \<Rightarrow> (ustr \<times> frame) list \<Rightarrow> extern" where
  "sample_extern files tables =
     \<lparr>repr = plain_repr,
      open_lines = lookup_path files,
      read_csv = (\<lambda>p s e k. lookup_path tables p),
      data_frame = (\<lambda>l k. Inr (DataFrame l)),
      read_csv_buffer = (\<lambda>s e k. Inl (LibraryError (lit ''read_csv''))),
      records_without_columns = (\<lambda>n. []),
      read_json = (\<lambda>p k. lookup_path tables p),
      astype_float = (\<lambda>vs. Inl (LibraryError (lit ''astype''))),
      fit_transform = (\<lambda>v fds. map (\<lambda>d. []) fds)\<rparr>"

section \<open>Numeric coercion\<close>

lemma int_of_text_no_TypeError: "int_of_text t \<noteq> Inl TypeError"
  by (simp add: int_of_text_def split: prod.splits option.splits)

lemma float_of_text_no_TypeError: "float_of_text t \<noteq> Inl TypeError"
  by (simp add: float_of_text_def Let_def split: prod.splits option.splits)

lemma text_type_PStr: "text_type rp (PStr s) = s"
  by (simp add: text_type_def)

lemma map_of_text_dict:
  "map_of (map (\<lambda>(k, t). (k, PStr t)) d) x = map_option PStr (map_of d x)"
  by (induction d) auto

text \<open>
  On an argument whose conversion to text succeeds, with a text-to-text dictionary, the
  call on any object is \<open>safe_float\<close> on that text.
\<close>

lemma safe_float_obj_refines:
  assumes "str_arg rp a = Inr t"
  shows "safe_float_obj rp a (text_dict rd) = Inr (safe_float rp (PStr t) rd)"
proof -
  define t2 where "t2 = (case rd of None \<Rightarrow> t
                         | Some d \<Rightarrow> (case map_of d t of Some r \<Rightarrow> r | None \<Rightarrow> t))"
  define w where "w = (case rd of None \<Rightarrow> []
                       | Some d \<Rightarrow> (case map_of d t of Some r \<Rightarrow> []
                                     | None \<Rightarrow> [not_in_map_msg t]))"
  have l: "safe_float_obj rp a (text_dict rd) =
             (case int_of (PStr t2) of
                Inr i \<Rightarrow> Inr (PInt i, w)
              | Inl ExcValueError \<Rightarrow>
                  (case float_of (PStr t2) of
                     Inr f \<Rightarrow> Inr (PFloat f, w)
                   | Inl ExcValueError \<Rightarrow> Inr (PStr t2, w)
                   | Inl ExcTypeError \<Rightarrow> Inr (PFloat (FVal 0), w)
                   | Inl e \<Rightarrow> Inl e)
              | Inl ExcTypeError \<Rightarrow> Inr (PInt 0, w)
              | Inl e \<Rightarrow> Inl e)"
  proof (cases rd)
    case None
    then have e: "t2 = t" "w = []" by (simp_all add: t2_def w_def)
    show ?thesis unfolding e using assms None by (simp add: safe_float_obj_def text_dict_def)
  next
    case (Some d)
    show ?thesis
    proof (cases "map_of d t")
      case None
      with Some have e: "t2 = t" "w = [not_in_map_msg t]" by (simp_all add: t2_def w_def)
      show ?thesis unfolding e using assms Some None
        by (simp add: safe_float_obj_def text_dict_def map_of_text_dict)
    next
      case (Some u)
      with \<open>rd = Some d\<close> have e: "t2 = u" "w = []" by (simp_all add: t2_def w_def)
      show ?thesis unfolding e using assms \<open>rd = Some d\<close> Some
        by (simp add: safe_float_obj_def text_dict_def map_of_text_dict)
    qed
  qed
  have r: "safe_float rp (PStr t) rd =
             (case int_of_text t2 of
                Inr i \<Rightarrow> PInt i
              | Inl ValueError \<Rightarrow>
                  (case float_of_text t2 of
                     Inr f \<Rightarrow> PFloat f
                   | Inl ValueError \<Rightarrow> PStr t2
                   | Inl TypeError \<Rightarrow> PFloat (FVal 0))
              | Inl TypeError \<Rightarrow> PInt 0, w)"
  proof (cases rd)
    case None
    then have e: "t2 = t" "w = []" by (simp_all add: t2_def w_def)
    show ?thesis unfolding e using None by (simp add: safe_float_def text_type_PStr)
  next
    case (Some d)
    show ?thesis
    proof (cases "map_of d t")
      case None
      with Some have e: "t2 = t" "w = [not_in_map_msg t]" by (simp_all add: t2_def w_def)
      show ?thesis unfolding e using Some None by (simp add: safe_float_def text_type_PStr)
    next
      case (Some u)
      with \<open>rd = Some d\<close> have e: "t2 = u" "w = []" by (simp_all add: t2_def w_def)
      show ?thesis unfolding e using \<open>rd = Some d\<close> Some
        by (simp add: safe_float_def text_type_PStr)
    qed
  qed
  show ?thesis
    unfolding l r
    using int_of_text_no_TypeError [of t2] float_of_text_no_TypeError [of t2]
    by (auto simp: exc_of_def map_sum_def split: sum.splits exn.splits)
qed

text \<open>
  A replacement that is not text reaches \<^verbatim>\<open>int\<close> as it is: \<^verbatim>\<open>None\<close> ends in the
  handler of \<^verbatim>\<open>TypeError\<close>, which returns the integer zero.
\<close>

lemma safe_float_obj_replaced_by_None:
  "safe_float_obj plain_repr (Val (PStr (lit ''a''))) (Some [(lit ''a'', PNone)])
     = Inr (PInt 0, [])"
  by code_simp

text \<open>
  C10, as the code has it. The argument is turned into text before anything else, and
  outside the \<^verbatim>\<open>try\<close>. Where that conversion returns a text (as it does for every
  text, number, dictionary and \<^verbatim>\<open>None\<close>) and the replacement dictionary maps text
  to text, \<^verbatim>\<open>safe_float\<close> raises nothing and returns an integer, a float or a text,
  the result of the call on that text. Where the conversion raises, the call raises
  that exception.
\<close>

theorem safe_float_raises_with_str:
  "(str_arg rp a = Inr t \<longrightarrow>
      (\<exists>v w. safe_float_obj rp a (text_dict rd) = Inr (v, w)
         \<and> ((\<exists>i. v = PInt i) \<or> (\<exists>f. v = PFloat f) \<or> (\<exists>s. v = PStr s))
         \<and> (v, w) = safe_float rp (PStr t) rd))
   \<and> (str_arg rp a = Inl e \<longrightarrow> safe_float_obj rp a rd' = Inl e)
   \<and> str_arg rp (Val x) = Inr (text_type rp x)"
proof -
  have k: "(\<exists>i. fst (safe_float rp (PStr t) rd) = PInt i)
             \<or> (\<exists>f. fst (safe_float rp (PStr t) rd) = PFloat f)
             \<or> (\<exists>s. fst (safe_float rp (PStr t) rd) = PStr s)"
    by (simp add: safe_float_def Let_def split: option.splits sum.splits exn.splits prod.splits)
  have a: "str_arg rp a = Inr t \<longrightarrow>
      (\<exists>v w. safe_float_obj rp a (text_dict rd) = Inr (v, w)
         \<and> ((\<exists>i. v = PInt i) \<or> (\<exists>f. v = PFloat f) \<or> (\<exists>s. v = PStr s))
         \<and> (v, w) = safe_float rp (PStr t) rd)"
  proof
    assume h: "str_arg rp a = Inr t"
    obtain v w where vw: "safe_float rp (PStr t) rd = (v, w)" by (cases "safe_float rp (PStr t) rd")
    from k vw have "(\<exists>i. v = PInt i) \<or> (\<exists>f. v = PFloat f) \<or> (\<exists>s. v = PStr s)" by simp
    with safe_float_obj_refines [OF h, of rd] vw
    show "\<exists>v w. safe_float_obj rp a (text_dict rd) = Inr (v, w)
         \<and> ((\<exists>i. v = PInt i) \<or> (\<exists>f. v = PFloat f) \<or> (\<exists>s. v = PStr s))
         \<and> (v, w) = safe_float rp (PStr t) rd"
      by simp
  qed
  have b: "str_arg rp a = Inl e \<longrightarrow> safe_float_obj rp a rd' = Inl e"
    by (simp add: safe_float_obj_def)
  have c: "str_arg rp (Val x) = Inr (text_type rp x)"
    by (simp add: str_arg_def)
  show ?thesis using a b c by blast
qed

theorem safe_float_raises_with_str_witness:
  "str_arg plain_repr (Val PNone) = Inr (lit ''None'')
   \<and> safe_float_obj plain_repr (Val PNone) (text_dict None) = Inr (PStr (lit ''None''), [])
   \<and> str_arg plain_repr (Obj (Inl ExcTypeError)) = Inl ExcTypeError
   \<and> safe_float_obj plain_repr (Obj (Inl ExcTypeError)) None = Inl ExcTypeError"
proof -
  have a: "str_arg plain_repr (Val PNone) = Inr (lit ''None'')" by code_simp
  have b: "str_arg plain_repr (Obj (Inl ExcTypeError)) = Inl ExcTypeError" by code_simp
  have c: "safe_float plain_repr (PStr (lit ''None'')) None = (PStr (lit ''None''), [])"
    by code_simp
  show ?thesis
    using a b c
      safe_float_raises_with_str [of plain_repr "Val PNone" "lit ''None''" None]
      safe_float_raises_with_str [of plain_repr "Obj (Inl ExcTypeError)" _ _ ExcTypeError None]
    by auto
qed

text \<open>
  C10 as stated fails at an object whose \<^verbatim>\<open>__str__\<close> raises, and, with a replacement
  dictionary, at a text that the dictionary maps to an infinite float: \<^verbatim>\<open>int\<close> raises
  \<^verbatim>\<open>OverflowError\<close>, which no handler catches.
\<close>

theorem safe_float_raises_counterexample:
  "safe_float_obj plain_repr (Obj (Inl (ExcOther (lit ''RuntimeError'')))) None
     = Inl (ExcOther (lit ''RuntimeError''))
   \<and> safe_float_obj plain_repr (Val (PStr (lit ''big'')))
        (Some [(lit ''big'', PFloat (FInf True))])
     = Inl ExcOverflowError"
  by code_simp

text \<open>
  C2, as the code has it. Without a replacement dictionary \<^verbatim>\<open>safe_float\<close> returns the
  integer 3 for \<^verbatim>\<open>"3"\<close>, the float 3.5 for \<^verbatim>\<open>"3.5"\<close>, and unchanged any text that
  neither \<^verbatim>\<open>int\<close> nor \<^verbatim>\<open>float\<close> accepts, such as \<^verbatim>\<open>"abc"\<close>. For \<^verbatim>\<open>None\<close> it
  does not raise and returns the text \<^verbatim>\<open>"None"\<close>, the text form of the input.
\<close>

theorem safe_float_examples:
  "safe_float rp (PStr (lit ''3'')) None = (PInt 3, [])
   \<and> safe_float rp (PStr (lit ''3.5'')) None = (PFloat (FVal (7 / 2)), [])
   \<and> safe_float rp (PStr (lit ''abc'')) None = (PStr (lit ''abc''), [])
   \<and> (int_of_text t = Inl ValueError \<and> float_of_text t = Inl ValueError
        \<longrightarrow> safe_float rp (PStr t) None = (PStr t, []))
   \<and> safe_float rp PNone None = (PStr (lit ''None''), [])"
proof -
  have a: "safe_float rp (PStr (lit ''3'')) None = (PInt 3, [])" by code_simp
  have b: "safe_float rp (PStr (lit ''3.5'')) None = (PFloat (FVal (7 / 2)), [])" by code_simp
  have c: "safe_float rp (PStr (lit ''abc'')) None = (PStr (lit ''abc''), [])" by code_simp
  have d: "int_of_text t = Inl ValueError \<and> float_of_text t = Inl ValueError
        \<longrightarrow> safe_float rp (PStr t) None = (PStr t, [])"
    by (simp add: safe_float_def text_type_PStr)
  have e: "safe_float rp PNone None = (PStr (lit ''None''), [])" by code_simp
  show ?thesis using a b c d e by blast
qed

theorem safe_float_examples_witness:
  "int_of_text (lit ''abc'') = Inl ValueError \<and> float_of_text (lit ''abc'') = Inl ValueError
   \<and> safe_float plain_repr (PStr (lit ''abc'')) None = (PStr (lit ''abc''), [])"
proof -
  have a: "int_of_text (lit ''abc'') = Inl ValueError" by code_simp
  have b: "float_of_text (lit ''abc'') = Inl ValueError" by code_simp
  show ?thesis using a b safe_float_examples [of plain_repr "lit ''abc''"] by blast
qed

text \<open>
  C2 as stated fails at \<^verbatim>\<open>None\<close>: the result is not the integer zero.
\<close>

theorem safe_float_None_counterexample:
  "fst (safe_float plain_repr PNone None) \<noteq> PInt 0"
  by code_simp

text \<open>
  C8. With a replacement dictionary, a value whose text form is a key is replaced by
  the mapped text before the numeric coercion and nothing is logged; a value whose text
  form is not a key goes to the numeric coercion as it is, and one warning is logged.
  No error arises either way.
\<close>

theorem safe_float_class_map:
  "(map_of m (text_type rp v) = Some t'
      \<longrightarrow> safe_float rp v (Some m) = (fst (safe_float rp (PStr t') None), []))
   \<and> (map_of m (text_type rp v) = None
      \<longrightarrow> safe_float rp v (Some m)
          = (fst (safe_float rp (PStr (text_type rp v)) None), [not_in_map_msg (text_type rp v)]))"
  by (simp add: safe_float_def text_type_PStr Let_def)

theorem safe_float_class_map_witness:
  "map_of [(lit ''pos'', lit ''1''), (lit ''neg'', lit ''0'')] (text_type plain_repr (PStr (lit ''pos''))) = Some (lit ''1'')
   \<and> safe_float plain_repr (PStr (lit ''pos'')) (Some [(lit ''pos'', lit ''1''), (lit ''neg'', lit ''0'')]) = (PInt 1, [])
   \<and> map_of [(lit ''pos'', lit ''1''), (lit ''neg'', lit ''0'')] (text_type plain_repr (PStr (lit ''neutral''))) = None
   \<and> safe_float plain_repr (PStr (lit ''neutral'')) (Some [(lit ''pos'', lit ''1''), (lit ''neg'', lit ''0'')])
       = (PStr (lit ''neutral''), [not_in_map_msg (lit ''neutral'')])"
proof -
  let ?m = "[(lit ''pos'', lit ''1''), (lit ''neg'', lit ''0'')]"
  have a: "map_of ?m (text_type plain_repr (PStr (lit ''pos''))) = Some (lit ''1'')" by code_simp
  have b: "fst (safe_float plain_repr (PStr (lit ''1'')) None) = PInt 1" by code_simp
  have c: "map_of ?m (text_type plain_repr (PStr (lit ''neutral''))) = None" by code_simp
  have d: "fst (safe_float plain_repr (PStr (lit ''neutral'')) None) = PStr (lit ''neutral'')" by code_simp
  have e: "text_type plain_repr (PStr (lit ''neutral'')) = lit ''neutral''" by (simp add: text_type_PStr)
  show ?thesis
    using a b c d e safe_float_class_map [of ?m plain_repr "PStr (lit ''pos'')" "lit ''1''"]
      safe_float_class_map [of ?m plain_repr "PStr (lit ''neutral'')" "lit ''1''"]
    by simp
qed

section \<open>Format dispatch\<close>

text \<open>
  C3, at the path \<^verbatim>\<open>data.txt\<close>. The call fails with the unsupported-format error, and
  its message names the path; the message lists six extensions and leaves out
  \<^verbatim>\<open>.libsvm\<close>, which \<^verbatim>\<open>EXT_TO_READER\<close> accepts.
\<close>

theorem for_path_message_omits_libsvm:
  "for_path (Path (lit ''data.txt'')) kw = Inl (UnsupportedFormat (lit ''data.txt''))
   \<and> error_message fmt (UnsupportedFormat (lit ''data.txt''))
       = lit ''Example files must be in either .arff, .csv, .jsonlines, .megam, .ndj, or .tsv format. You specified: data.txt''
   \<and> \<not> occurs_in (lit ''.libsvm'') (error_message fmt (UnsupportedFormat (lit ''data.txt'')))
   \<and> map_of EXT_TO_READER (lit ''.libsvm'') = Some LibSVMReader"
  by code_simp

text \<open>
  C9. For an in-memory list of records \<^verbatim>\<open>for_path\<close> returns the record-list reader
  built from the defaults alone: the result is the same for all keyword arguments.
\<close>

theorem for_path_list_ignores_kwargs:
  "for_path (Records l) kw = for_path (Records l) no_kwargs
   \<and> for_path (Records l) kw =
       Inr \<lparr>kind = DictListReader, path_or_list = Records l, quiet = True,
            ids_to_floats = False, label_col = Some (lit ''y''), id_col = Some (lit ''id''),
            class_map = None, vectorizer = DictVectorizer True, pandas_kwargs = [],
            sep = PNone, engine = PNone\<rparr>"
  by (simp add: for_path_def construct_def Reader_init_def no_kwargs_def default_def)

section \<open>The MegaM parser\<close>

lemma dict_set_keys:
  "map fst (dict_set k v d) = (if k \<in> set (map fst d) then map fst d else map fst d @ [k])"
  by (induction d) force+

lemma dict_set_fresh: "k \<notin> set (map fst d) \<Longrightarrow> dict_set k v d = d @ [(k, v)]"
  by (induction d) auto

lemma dict_update_Cons: "dict_update d ((k, v) # ps) = dict_update (dict_set k v d) ps"
  by (simp add: dict_update_def)

lemma dict_update_Nil: "dict_update d [] = d"
  by (simp add: dict_update_def)

text \<open>A dictionary never holds a key twice, and holds every key it was given.\<close>

lemma dict_update_keys:
  "distinct (map fst d) \<Longrightarrow>
     distinct (map fst (dict_update d ps))
     \<and> set (map fst (dict_update d ps)) = set (map fst d) \<union> set (map fst ps)"
proof (induction ps arbitrary: d)
  case Nil
  then show ?case by (simp add: dict_update_Nil)
next
  case (Cons p ps)
  obtain k v where p: "p = (k, v)" by (cases p)
  have "distinct (map fst (dict_set k v d))"
    using Cons.prems by (simp add: dict_set_keys)
  from Cons.IH [OF this] show ?case
    by (auto simp: p dict_update_Cons dict_set_keys)
qed

text \<open>Pairs with new, distinct keys are appended in order.\<close>

lemma dict_update_fresh:
  "distinct (map fst d @ map fst ps) \<Longrightarrow> dict_update d ps = d @ ps"
proof (induction ps arbitrary: d)
  case Nil
  then show ?case by (simp add: dict_update_Nil)
next
  case (Cons p ps)
  obtain k v where p: "p = (k, v)" by (cases p)
  have fresh: "k \<notin> set (map fst d)" using Cons.prems by (auto simp: p)
  have "distinct (map fst (d @ [(k, v)]) @ map fst ps)" using Cons.prems by (auto simp: p)
  from Cons.IH [OF this] show ?case
    by (simp add: p dict_update_Cons dict_set_fresh [OF fresh])
qed

lemma length_dict_update: "length (dict_update [] ps) = card (set (map fst ps))"
proof -
  have d: "distinct (map fst (dict_update [] ps))"
    and s: "set (map fst (dict_update [] ps)) = set (map fst ps)"
    using dict_update_keys [of "[]" ps] by simp_all
  have "length (dict_update [] ps) = length (map fst (dict_update [] ps))" by simp
  also have "\<dots> = card (set (map fst (dict_update [] ps)))"
    using d by (rule distinct_card [symmetric])
  finally show ?thesis using s by simp
qed

lemma islice_length:
  "even (length xs) \<Longrightarrow>
     2 * length (islice0 xs) = length xs \<and> length (islice1 xs) = length (islice0 xs)"
  by (induction xs rule: islice0.induct) auto

text \<open>
  The dictionary built from the name/value tokens of an instance line, and the
  duplicate check \<^verbatim>\<open>len(curr_info_dict) != len(field_pairs) / 2\<close>: it fires exactly
  when a feature name occurs twice.
\<close>

lemma megam_pairs:
  assumes "even (length fp)"
  shows "distinct (islice0 fp) \<Longrightarrow>
           dict_update [] (zip (islice0 fp) (map g (islice1 fp)))
             = zip (islice0 fp) (map g (islice1 fp))"
    and "distinct (islice0 fp) \<Longrightarrow>
           2 * length (dict_update [] (zip (islice0 fp) (map g (islice1 fp)))) = length fp"
    and "\<not> distinct (islice0 fp) \<Longrightarrow>
           2 * length (dict_update [] (zip (islice0 fp) (map g (islice1 fp)))) \<noteq> length fp"
proof -
  let ?ps = "zip (islice0 fp) (map g (islice1 fp))"
  have len: "2 * length (islice0 fp) = length fp" "length (islice1 fp) = length (islice0 fp)"
    using islice_length [OF assms] by simp_all
  have keys: "map fst ?ps = islice0 fp" using len by simp
  show "distinct (islice0 fp) \<Longrightarrow> dict_update [] ?ps = ?ps"
    using dict_update_fresh [of "[]" ?ps] keys by simp
  then show "distinct (islice0 fp) \<Longrightarrow> 2 * length (dict_update [] ?ps) = length fp"
    using len by simp
  show "\<not> distinct (islice0 fp) \<Longrightarrow> 2 * length (dict_update [] ?ps) \<noteq> length fp"
  proof -
    assume nd: "\<not> distinct (islice0 fp)"
    have "card (set (islice0 fp)) \<noteq> length (islice0 fp)"
      using nd card_distinct by blast
    then show ?thesis
      using len keys by (simp add: length_dict_update)
  qed
qed

text \<open>
  C4. For the tokens of an instance line of a MegaM file: a single token is the label
  and there are no features; an odd count above one makes token 0 the label and the
  other tokens name/value pairs; an even count leaves the label absent and makes all
  tokens name/value pairs. The label is token 0 after class-map and numeric coercion,
  each value is coerced, and the pairs are the features when no name occurs twice (a
  repeated name is the duplicate-feature error). The three-line input of the claim,
  read with the default configuration, yields the identifiers \<^verbatim>\<open>ex1\<close> and
  \<^verbatim>\<open>EXAMPLE_1\<close>, the labels 1 and \<^verbatim>\<open>None\<close>, and the two feature mappings.
\<close>

theorem MegaM_token_shapes:
  "(length toks = 1 \<longrightarrow>
      MegaM_instance ext r cid toks
        = Inr (cid, fst (safe_float (repr ext) (PStr (hd toks)) (class_map r)), PDict []))
   \<and> (1 < length toks \<and> odd (length toks) \<and> distinct (islice0 (tl toks)) \<longrightarrow>
      MegaM_instance ext r cid toks
        = Inr (cid, fst (safe_float (repr ext) (PStr (hd toks)) (class_map r)),
               PDict (zip (islice0 (tl toks))
                          (map (\<lambda>val. fst (safe_float (repr ext) (PStr val) None))
                               (islice1 (tl toks))))))
   \<and> (0 < length toks \<and> even (length toks) \<and> distinct (islice0 toks) \<longrightarrow>
      MegaM_instance ext r cid toks
        = Inr (cid, PNone,
               PDict (zip (islice0 toks)
                          (map (\<lambda>val. fst (safe_float (repr ext) (PStr val) None))
                               (islice1 toks)))))
   \<and> (1 < length toks
        \<and> \<not> distinct (islice0 (if odd (length toks) then tl toks else toks)) \<longrightarrow>
      MegaM_instance ext r cid toks = Inl (DuplicateFeature (path_or_list r) cid))
   \<and> MegaM_sub_read ext (Reader_init MegaMReader (Path (lit ''ex.megam'')) no_kwargs)
        [lit ''# ex1'', lit ''1 f1 2.0 f2 3.0'', lit ''f1 1.0'']
      = ([(lit ''ex1'', PInt 1,
           PDict [(lit ''f1'', PFloat (FVal 2)), (lit ''f2'', PFloat (FVal 3))]),
          (lit ''EXAMPLE_1'', PNone, PDict [(lit ''f1'', PFloat (FVal 1))])], None)"
proof -
  let ?g = "\<lambda>val. fst (safe_float (repr ext) (PStr val) None)"
  have one: "length toks = 1 \<longrightarrow>
      MegaM_instance ext r cid toks
        = Inr (cid, fst (safe_float (repr ext) (PStr (hd toks)) (class_map r)), PDict [])"
    by (simp add: MegaM_instance_def)
  have odd: "1 < length toks \<and> odd (length toks) \<and> distinct (islice0 (tl toks)) \<longrightarrow>
      MegaM_instance ext r cid toks
        = Inr (cid, fst (safe_float (repr ext) (PStr (hd toks)) (class_map r)),
               PDict (zip (islice0 (tl toks)) (map ?g (islice1 (tl toks)))))"
  proof
    assume h: "1 < length toks \<and> odd (length toks) \<and> distinct (islice0 (tl toks))"
    then have ev: "even (length (tl toks))" and pos: "0 < length (tl toks)" by auto
    have m: "length toks mod 2 = 1" using h by presburger
    show "MegaM_instance ext r cid toks
        = Inr (cid, fst (safe_float (repr ext) (PStr (hd toks)) (class_map r)),
               PDict (zip (islice0 (tl toks)) (map ?g (islice1 (tl toks)))))"
      using h m pos megam_pairs(1,2) [OF ev, of ?g]
      by (simp add: MegaM_instance_def)
  qed
  have even: "0 < length toks \<and> even (length toks) \<and> distinct (islice0 toks) \<longrightarrow>
      MegaM_instance ext r cid toks
        = Inr (cid, PNone, PDict (zip (islice0 toks) (map ?g (islice1 toks))))"
  proof
    assume h: "0 < length toks \<and> even (length toks) \<and> distinct (islice0 toks)"
    then have ev: "even (length toks)" by simp
    have m: "length toks mod 2 \<noteq> 1" using h by presburger
    have n1: "length toks \<noteq> 1" using h by (cases "length toks = 1") simp_all
    show "MegaM_instance ext r cid toks
        = Inr (cid, PNone, PDict (zip (islice0 toks) (map ?g (islice1 toks))))"
      using h m n1 megam_pairs(1,2) [OF ev, of ?g]
      by (simp add: MegaM_instance_def)
  qed
  have dup: "1 < length toks
        \<and> \<not> distinct (islice0 (if odd (length toks) then tl toks else toks)) \<longrightarrow>
      MegaM_instance ext r cid toks = Inl (DuplicateFeature (path_or_list r) cid)"
  proof
    assume h: "1 < length toks
        \<and> \<not> distinct (islice0 (if odd (length toks) then tl toks else toks))"
    show "MegaM_instance ext r cid toks = Inl (DuplicateFeature (path_or_list r) cid)"
    proof (cases "odd (length toks)")
      case True
      then have ev: "even (length (tl toks))" using h by auto
      have ne: "tl toks \<noteq> []" using h by (cases toks) auto
      have m: "length toks mod 2 = 1" using True by presburger
      have nd: "\<not> distinct (islice0 (tl toks))" using h True by simp
      show ?thesis
        using h m ne megam_pairs(3) [OF ev nd, of ?g]
        by (simp add: MegaM_instance_def)
    next
      case False
      then have ev: "even (length toks)" by simp
      have m: "length toks mod 2 \<noteq> 1" using False by presburger
      have nd: "\<not> distinct (islice0 toks)" using h False by simp
      have ne: "toks \<noteq> []" using h by auto
      show ?thesis
        using h m ne megam_pairs(3) [OF ev nd, of ?g]
        by (simp add: MegaM_instance_def)
    qed
  qed
  have ex: "MegaM_sub_read ext (Reader_init MegaMReader (Path (lit ''ex.megam'')) no_kwargs)
        [lit ''# ex1'', lit ''1 f1 2.0 f2 3.0'', lit ''f1 1.0'']
      = ([(lit ''ex1'', PInt 1,
           PDict [(lit ''f1'', PFloat (FVal 2)), (lit ''f2'', PFloat (FVal 3))]),
          (lit ''EXAMPLE_1'', PNone, PDict [(lit ''f1'', PFloat (FVal 1))])], None)"
    by code_simp
  show ?thesis using one odd even dup ex by blast
qed

theorem MegaM_token_shapes_witness:
  "length [lit ''pos''] = 1
   \<and> MegaM_instance (sample_extern [] [])
         (Reader_init MegaMReader (Path (lit ''ex.megam'')) no_kwargs) (lit ''EXAMPLE_0'')
         [lit ''pos'']
       = Inr (lit ''EXAMPLE_0'', PStr (lit ''pos''), PDict [])
   \<and> 1 < length [lit ''1'', lit ''f1'', lit ''2.0'', lit ''f2'', lit ''3.0'']
   \<and> odd (length [lit ''1'', lit ''f1'', lit ''2.0'', lit ''f2'', lit ''3.0''])
   \<and> distinct (islice0 (tl [lit ''1'', lit ''f1'', lit ''2.0'', lit ''f2'', lit ''3.0'']))
   \<and> MegaM_instance (sample_extern [] [])
         (Reader_init MegaMReader (Path (lit ''ex.megam'')) no_kwargs) (lit ''ex1'')
         [lit ''1'', lit ''f1'', lit ''2.0'', lit ''f2'', lit ''3.0'']
       = Inr (lit ''ex1'', PInt 1,
              PDict [(lit ''f1'', PFloat (FVal 2)), (lit ''f2'', PFloat (FVal 3))])
   \<and> 0 < length [lit ''f1'', lit ''1.0''] \<and> even (length [lit ''f1'', lit ''1.0''])
   \<and> distinct (islice0 [lit ''f1'', lit ''1.0''])
   \<and> MegaM_instance (sample_extern [] [])
         (Reader_init MegaMReader (Path (lit ''ex.megam'')) no_kwargs) (lit ''EXAMPLE_1'')
         [lit ''f1'', lit ''1.0'']
       = Inr (lit ''EXAMPLE_1'', PNone, PDict [(lit ''f1'', PFloat (FVal 1))])
   \<and> 1 < length [lit ''1'', lit ''f1'', lit ''2.0'', lit ''f1'', lit ''3.0'']
   \<and> \<not> distinct (islice0 (tl [lit ''1'', lit ''f1'', lit ''2.0'', lit ''f1'', lit ''3.0'']))
   \<and> MegaM_instance (sample_extern [] [])
         (Reader_init MegaMReader (Path (lit ''ex.megam'')) no_kwargs) (lit ''ex2'')
         [lit ''1'', lit ''f1'', lit ''2.0'', lit ''f1'', lit ''3.0'']
       = Inl (DuplicateFeature (Path (lit ''ex.megam'')) (lit ''ex2''))"
proof -
  let ?ext = "sample_extern [] []"
  let ?r = "Reader_init MegaMReader (Path (lit ''ex.megam'')) no_kwargs"
  let ?t0 = "[lit ''pos'']"
  let ?t1 = "[lit ''1'', lit ''f1'', lit ''2.0'', lit ''f2'', lit ''3.0'']"
  let ?t2 = "[lit ''f1'', lit ''1.0'']"
  let ?t3 = "[lit ''1'', lit ''f1'', lit ''2.0'', lit ''f1'', lit ''3.0'']"
  have h0: "length ?t0 = 1" by simp
  have h1: "1 < length ?t1 \<and> odd (length ?t1) \<and> distinct (islice0 (tl ?t1))" by code_simp
  have h2: "0 < length ?t2 \<and> even (length ?t2) \<and> distinct (islice0 ?t2)" by code_simp
  have h3: "1 < length ?t3 \<and> \<not> distinct (islice0 (if odd (length ?t3) then tl ?t3 else ?t3))"
    by code_simp
  have h3': "\<not> distinct (islice0 (tl ?t3))" by code_simp
  have v0: "Inr (lit ''EXAMPLE_0'', fst (safe_float (repr ?ext) (PStr (hd ?t0)) (class_map ?r)),
               PDict [])
        = (Inr (lit ''EXAMPLE_0'', PStr (lit ''pos''), PDict []) :: error + example)"
    by code_simp
  have v1: "Inr (lit ''ex1'', fst (safe_float (repr ?ext) (PStr (hd ?t1)) (class_map ?r)),
               PDict (zip (islice0 (tl ?t1))
                          (map (\<lambda>val. fst (safe_float (repr ?ext) (PStr val) None))
                               (islice1 (tl ?t1)))))
        = (Inr (lit ''ex1'', PInt 1,
              PDict [(lit ''f1'', PFloat (FVal 2)), (lit ''f2'', PFloat (FVal 3))]) :: error + example)"
    by code_simp
  have v2: "Inr (lit ''EXAMPLE_1'', PNone,
               PDict (zip (islice0 ?t2)
                          (map (\<lambda>val. fst (safe_float (repr ?ext) (PStr val) None))
                               (islice1 ?t2))))
        = (Inr (lit ''EXAMPLE_1'', PNone, PDict [(lit ''f1'', PFloat (FVal 1))]) :: error + example)"
    by code_simp
  have v3: "path_or_list ?r = Path (lit ''ex.megam'')" by code_simp
  show ?thesis
    using h0 h1 h2 h3 h3' v0 v1 v2 v3
      MegaM_token_shapes [of ?t0 ?ext ?r "lit ''EXAMPLE_0''"]
      MegaM_token_shapes [of ?t1 ?ext ?r "lit ''ex1''"]
      MegaM_token_shapes [of ?t2 ?ext ?r "lit ''EXAMPLE_1''"]
      MegaM_token_shapes [of ?t3 ?ext ?r "lit ''ex2''"]
    by presburger
qed

section \<open>The LibSVM parser\<close>

lemma replace_cp_Nil: "replace_cp orig rp [] = []"
  by (simp add: replace_cp_def)

lemma replace_cp_Cons:
  "replace_cp orig rp (c # s) = (if c = orig then rp else [c]) @ replace_cp orig rp s"
  by (simp add: replace_cp_def)

lemma replace_cp_append:
  "replace_cp orig rp (s @ t) = replace_cp orig rp s @ replace_cp orig rp t"
  by (simp add: replace_cp_def)

text \<open>
  The replacements of \<^verbatim>\<open>LIBSVM_REPLACE_DICT\<close>, made one after the other on a name,
  put the ASCII character in place of each of the five look-alikes and change nothing
  else.
\<close>

lemma decode_name:
  "foldl (\<lambda>nm (orig, replacement). replace_cp orig replacement nm) name LIBSVM_REPLACE_DICT
     = concat (map (\<lambda>c. if c = 8758 then [58] else if c = 65283 then [35]
                         else if c = 8194 then [32] else if c = 42890 then [61]
                         else if c = 8739 then [124] else [c]) name)"
  by (induction name)
     (simp_all add: LIBSVM_REPLACE_DICT_def replace_cp_Nil replace_cp_Cons replace_cp_append)

text \<open>
  A file whose first line matches the pattern without a comment ends the generator at
  once: \<^verbatim>\<open>label_map\<close> is read before any assignment.
\<close>

lemma first_line_without_comment:
  assumes "rx_run line_regex (strip l) [] = Some m" "group m (lit ''comments'') = None"
  shows "LibSVM_sub_read ext r (l # f) = ([], Some (UnboundLocalError (lit ''label_map'')))"
  using assms by (simp add: LibSVM_sub_read_def LibSVM_line_def)

text \<open>
  C5, at the line \<^verbatim>\<open>1 1:2.0 # ex1 | 1=pos | 1=a<EN SPACE>b\<close>, whose feature name stands
  for \<^verbatim>\<open>a b\<close>. The third comment segment is split at whitespace before the
  replacements are made, EN SPACE is whitespace, and the piece \<^verbatim>\<open>b\<close> has no
  \<^verbatim>\<open>=\<close>: the generator ends in the unpacking \<^verbatim>\<open>ValueError\<close> and yields nothing,
  although the replacement table sends the name to \<^verbatim>\<open>a b\<close>. A name with RATIO in
  place of the colon is read back as \<^verbatim>\<open>a:b\<close>, and the line of the claim yields the
  identifier \<^verbatim>\<open>ex1\<close>, the label \<^verbatim>\<open>pos\<close> and the features \<^verbatim>\<open>f1\<close>, \<^verbatim>\<open>f2\<close>.
\<close>

theorem LibSVM_en_space_name:
  "LibSVM_sub_read ext r [lit ''1 1:2.0 # ex1 | 1=pos | 1=a'' @ [8194] @ lit ''b'']
     = ([], Some (UnpackError (lit ''b'')))
   \<and> foldl (\<lambda>nm (orig, replacement). replace_cp orig replacement nm)
        (lit ''a'' @ [8194] @ lit ''b'') LIBSVM_REPLACE_DICT = lit ''a b''
   \<and> LibSVM_sub_read ext (Reader_init LibSVMReader (Path (lit ''ex.libsvm'')) no_kwargs)
        [lit ''1 1:2.0 # ex1 | 1=pos | 1=a'' @ [8758] @ lit ''b'']
     = ([(lit ''ex1'', PStr (lit ''pos''), PDict [(lit ''a:b'', PFloat (FVal 2))])], None)
   \<and> LibSVM_sub_read ext (Reader_init LibSVMReader (Path (lit ''ex.libsvm'')) no_kwargs)
        [lit ''1 1:2.0 2:3.0 # ex1 | 1=pos | 1=f1 2=f2'']
     = ([(lit ''ex1'', PStr (lit ''pos''),
          PDict [(lit ''f1'', PFloat (FVal 2)), (lit ''f2'', PFloat (FVal 3))])], None)"
  by code_simp

section \<open>Reading a data set\<close>

subsection \<open>Row counts\<close>



text \<open>The common element type of an array changes its elements, not their number.\<close>

lemma length_unify_numeric [simp]: "length (unify_numeric xs) = length xs"
  by (simp add: unify_numeric_def)

lemma length_np_array [simp]: "length (np_array ext xs) = length xs"
  by (simp add: np_array_def)

lemma length_unify_column [simp]: "length (unify_column xs) = length xs"
  by (simp add: unify_column_def)





text \<open>The assertion: counts that disagree end the read before anything is returned.\<close>

lemma read_asserts_counts:
  assumes "parse ext r = Inr (ids, labels, (fds, None))"
    and "\<not> (length ids = length labels
            \<and> length labels = length (fit_transform ext (vectorizer r) fds))"
  shows "read ext r = Inl AssertionError"
  using assms by (simp add: read_def)

text \<open>
  C1, at a LibSVM file whose one line \<^verbatim>\<open>1 1:2.0 2:3.0\<close> has no comment. The file holds
  one well-formed example, and \<^verbatim>\<open>for_path\<close> gives the LibSVM reader for it; \<^verbatim>\<open>read\<close>
  returns no data set: the generator reads its local \<^verbatim>\<open>label_map\<close>, which only a
  comment assigns, and ends in \<^verbatim>\<open>UnboundLocalError\<close>. The same line with a comment
  is read into one identifier, one label and one matrix row.
\<close>

theorem read_libsvm_without_comment:
  "for_path (Path (lit ''d.libsvm'')) no_kwargs
     = Inr (Reader_init LibSVMReader (Path (lit ''d.libsvm'')) no_kwargs)
   \<and> read (sample_extern [(lit ''d.libsvm'', [lit ''1 1:2.0 2:3.0''])] [])
        (Reader_init LibSVMReader (Path (lit ''d.libsvm'')) no_kwargs)
     = Inl (UnboundLocalError (lit ''label_map''))
   \<and> read (sample_extern [(lit ''d.libsvm'', [lit ''1 1:2.0 2:3.0 # ex1 | 1=pos | 1=f1 2=f2''])] [])
        (Reader_init LibSVMReader (Path (lit ''d.libsvm'')) no_kwargs)
     = Inr \<lparr>fs_name = Path (lit ''d.libsvm''), fs_ids = [PStr (lit ''ex1'')],
            fs_labels = [PStr (lit ''pos'')], fs_features = [[]],
            fs_vectorizer = DictVectorizer True\<rparr>"
  by code_simp

subsection \<open>Empty input\<close>










subsection \<open>Duplicate identifiers\<close>

lemma remdups_shorter: "\<not> distinct xs \<Longrightarrow> length (remdups xs) < length xs"
  using length_remdups_leq [of xs] length_remdups_eq [of xs] distinct_remdups_id [of xs]
  by (metis distinct_remdups le_neq_implies_less)

lemma shared_not_distinct:
  assumes "i < j" "j < length xs" "xs ! i = xs ! j" "P (xs ! i)"
  shows "\<not> distinct (filter P xs)"
proof -
  have i: "i < length xs" using assms by simp
  have xs: "xs = take i xs @ xs ! i # drop (Suc i) xs"
    using i by (rule id_take_nth_drop)
  have "drop (Suc i) xs ! (j - Suc i) = xs ! j"
    using assms(1,2) by simp
  moreover have "j - Suc i < length (drop (Suc i) xs)"
    using assms(1,2) by simp
  ultimately have "xs ! j \<in> set (drop (Suc i) xs)"
    by (metis nth_mem)
  then have mem: "xs ! i \<in> set (filter P (drop (Suc i) xs))"
    using assms(3,4) by simp
  have "filter P xs = filter P (take i xs) @ xs ! i # filter P (drop (Suc i) xs)"
    using assms(4) by (subst xs) simp
  then show ?thesis using mem by (metis distinct.simps(2) distinct_append)
qed

text \<open>Two equal identifiers make the set of identifiers smaller than their list.\<close>

lemma len_set_shared:
  assumes "NoKey \<notin> set (map hash_key ids)"
    and "i < j" "j < length ids" "ids ! i = ids ! j" "hash_key (ids ! i) \<noteq> NaNKey"
  shows "\<exists>n. len_set ids = Inr n \<and> n < length ids"
proof -
  let ?ks = "map hash_key ids"
  have "\<not> distinct (filter (\<lambda>k. k \<noteq> NaNKey) ?ks)"
    using assms(2-5) by (intro shared_not_distinct [of i j]) simp_all
  then have "length (remdups (filter (\<lambda>k. k \<noteq> NaNKey) ?ks))
               < length (filter (\<lambda>k. k \<noteq> NaNKey) ?ks)"
    by (rule remdups_shorter)
  moreover have "length (filter (\<lambda>k. k \<noteq> NaNKey) ?ks)
                   + length (filter (\<lambda>k. k = NaNKey) ?ks) = length ids"
    using sum_length_filter_compl [of "\<lambda>k. k \<noteq> NaNKey" ?ks] by simp
  ultimately show ?thesis using assms(1) by (simp add: len_set_def)
qed

text \<open>
  C6. When the source of a reader of any format has been parsed in full, the row
  counts agree, and two of the examples have the same identifier (identifiers being
  \<^verbatim>\<open>None\<close>, numbers or text, and the shared one not a NaN, which equals nothing),
  \<^verbatim>\<open>read\<close> fails with the duplicate-identifier error, whose message names the source,
  and returns no feature set.
\<close>

theorem read_duplicate_ids:
  assumes "parse ext r = Inr (ids, labels, (fds, None))"
    and "length ids = length labels"
    and "length (fit_transform ext (vectorizer r) fds) = length labels"
    and "NoKey \<notin> set (map hash_key ids)"
    and "i < j" "j < length ids" "ids ! i = ids ! j" "hash_key (ids ! i) \<noteq> NaNKey"
  shows "read ext r = Inl (DuplicateId (path_or_list r))
         \<and> error_message fmt (DuplicateId (path_or_list r))
             = lit ''The example IDs are not unique in '' @ fmt (path_or_list r) @ lit ''.''"
proof -
  obtain n where n: "len_set ids = Inr n" "n < length ids"
    using len_set_shared [OF assms(4-8)] by blast
  show ?thesis using assms(1-3) n by (simp add: read_def)
qed

theorem read_duplicate_ids_witness:
  "for_path (Path (lit ''t.csv'')) no_kwargs
     = Inr ((Reader_init CSVReader (Path (lit ''t.csv'')) no_kwargs)\<lparr>sep := PStr (lit '',''), engine := PStr (lit ''c'')\<rparr>)
   \<and> parse (sample_extern []
            [(lit ''t.csv'', \<lparr>columns = [lit ''id'', lit ''y'', lit ''f1''],
                              rows = [[PStr (lit ''A''), PInt 1, PInt 2],
                                      [PStr (lit ''A''), PInt 0, PInt 3]]\<rparr>)])
         ((Reader_init CSVReader (Path (lit ''t.csv'')) no_kwargs)\<lparr>sep := PStr (lit '',''), engine := PStr (lit ''c'')\<rparr>)
     = Inr ([PStr (lit ''A''), PStr (lit ''A'')], [PInt 1, PInt 0],
            ([PDict [(lit ''f1'', PInt 2)], PDict [(lit ''f1'', PInt 3)]], None))
   \<and> read (sample_extern []
            [(lit ''t.csv'', \<lparr>columns = [lit ''id'', lit ''y'', lit ''f1''],
                              rows = [[PStr (lit ''A''), PInt 1, PInt 2],
                                      [PStr (lit ''A''), PInt 0, PInt 3]]\<rparr>)])
         ((Reader_init CSVReader (Path (lit ''t.csv'')) no_kwargs)\<lparr>sep := PStr (lit '',''), engine := PStr (lit ''c'')\<rparr>)
     = Inl (DuplicateId (Path (lit ''t.csv'')))"
proof -
  let ?ext = "sample_extern []
            [(lit ''t.csv'', \<lparr>columns = [lit ''id'', lit ''y'', lit ''f1''],
                              rows = [[PStr (lit ''A''), PInt 1, PInt 2],
                                      [PStr (lit ''A''), PInt 0, PInt 3]]\<rparr>)]"
  let ?r = "(Reader_init CSVReader (Path (lit ''t.csv'')) no_kwargs)\<lparr>sep := PStr (lit '',''), engine := PStr (lit ''c'')\<rparr>"
  let ?ids = "[PStr (lit ''A''), PStr (lit ''A'')]"
  let ?labels = "[PInt 1, PInt 0]"
  let ?fds = "[PDict [(lit ''f1'', PInt 2)], PDict [(lit ''f1'', PInt 3)]]"
  have f: "for_path (Path (lit ''t.csv'')) no_kwargs = Inr ?r" by code_simp
  have p: "parse ?ext ?r = Inr (?ids, ?labels, (?fds, None))" by code_simp
  have l: "length ?ids = length ?labels" by simp
  have v: "length (fit_transform ?ext (vectorizer ?r) ?fds) = length ?labels" by code_simp
  have k: "NoKey \<notin> set (map hash_key ?ids)" by simp
  have n: "hash_key (?ids ! 0) \<noteq> NaNKey" by simp
  have src: "path_or_list ?r = Path (lit ''t.csv'')" by code_simp
  show ?thesis
    using f p src read_duplicate_ids [OF p l v k, of 0 1, OF _ _ _ n]
    by simp
qed

end
